theory Spec2Isabelle
  imports Main
begin

section \<open>The redirect service: data\<close>

text \<open>
  The redirect service (package main of redirect-service) answers two routes,
  \<^verbatim>\<open>GET /health\<close> and \<^verbatim>\<open>GET /{shortCode}\<close>. It reads the mapping store (Redis),
  answers the client, and starts a goroutine that publishes a click event to the event
  log (Kafka). The model below follows the source function by function. What the
  source leaves to its libraries is modelled at the level of the library's documented
  contract, and is marked as such.
\<close>

text \<open>A \<^verbatim>\<open>time.Time\<close>: an instant, as nanoseconds since the Unix epoch.\<close>

type_synonym Time = int

text \<open>
  A Go \<^verbatim>\<open>error\<close> value. The handler compares against the sentinel \<^verbatim>\<open>redis.Nil\<close>
  (key not found). A \<open>net_Error\<close> is a failure of the connection (refused, reset,
  closed, timed out); every other error is an \<open>Error\<close> with its message.
\<close>

datatype error = redis_Nil | net_Error string | Error string

fun Error_text :: "error \<Rightarrow> string" where
  "Error_text redis_Nil = ''redis: nil''"
| "Error_text (net_Error msg) = msg"
| "Error_text (Error msg) = msg"

record HealthResponse =
  Status :: string
  Service :: string
  Timestamp :: Time

record ClickEvent =
  ShortCode :: string
  Timestamp :: Time
  UserAgent :: string
  IP :: string

subsection \<open>JSON\<close>

text \<open>
  A struct is marshalled to a JSON object whose member names are the struct's
  \<^verbatim>\<open>json\<close> tags, in declaration order. The rendering of that object as bytes is the work
  of \<^verbatim>\<open>encoding/json\<close>: it is a parameter \<open>Marshal\<close> of the functions that encode, a
  function from the object to the bytes or to an error.
\<close>

datatype json_value = JString string | JTime Time

type_synonym json_object = "(string \<times> json_value) list"

type_synonym Marshal = "json_object \<Rightarrow> error + string"

definition HealthResponse_json :: "HealthResponse \<Rightarrow> json_object" where
  "HealthResponse_json h =
     [(''status'', JString (Status h)),
      (''service'', JString (Service h)),
      (''timestamp'', JTime (HealthResponse.Timestamp h))]"

definition ClickEvent_json :: "ClickEvent \<Rightarrow> json_object" where
  "ClickEvent_json e =
     [(''shortCode'', JString (ShortCode e)),
      (''timestamp'', JTime (ClickEvent.Timestamp e)),
      (''userAgent'', JString (UserAgent e)),
      (''ip'', JString (IP e))]"

subsection \<open>HTTP requests and responses\<close>

text \<open>
  The request as the handlers read it: the method, the path of the request URL, the
  header table (field name to values), the peer address, and the route variables that
  the router has bound (\<^verbatim>\<open>mux.Vars(r)\<close>). Which handler a request reaches is the
  router's decision, taken from the routes that \<^verbatim>\<open>main\<close> registers, \<^verbatim>\<open>/health\<close> first
  and \<^verbatim>\<open>/{shortCode}\<close> second; the handlers are modelled from the point where the router
  calls them.
\<close>

record Request =
  Method :: string
  URL_Path :: string
  Header :: "string \<Rightarrow> string list"
  RemoteAddr :: string
  Vars :: "string \<rightharpoonup> string"

text \<open>\<^verbatim>\<open>Header.Get\<close>: the first value of the field, the empty string when there is none.\<close>

definition Header_Get :: "(string \<Rightarrow> string list) \<Rightarrow> string \<Rightarrow> string" where
  "Header_Get h key = (case h key of [] \<Rightarrow> '''' | v # _ \<Rightarrow> v)"

definition Request_UserAgent :: "Request \<Rightarrow> string" where
  "Request_UserAgent r = Header_Get (Header r) ''User-Agent''"

text \<open>Indexing a Go map of strings: the zero value \<^verbatim>\<open>""\<close> for a missing key.\<close>

definition map_index :: "(string \<rightharpoonup> string) \<Rightarrow> string \<Rightarrow> string" where
  "map_index m key = (case m key of None \<Rightarrow> '''' | Some v \<Rightarrow> v)"

text \<open>
  The response as the handler leaves it: the status line (\<open>None\<close> until it is
  written), the header fields set when it is written, and the body. The first \<^verbatim>\<open>WriteHeader\<close>
  wins, header fields set after it are not sent, and a \<^verbatim>\<open>Write\<close> before any
  \<^verbatim>\<open>WriteHeader\<close> sends status 200.
\<close>

record ResponseWriter =
  status :: "nat option"
  header :: "string \<rightharpoonup> string"
  body :: string

definition StatusOK :: nat where "StatusOK = 200"
definition StatusFound :: nat where "StatusFound = 302"
definition StatusNotFound :: nat where "StatusNotFound = 404"
definition StatusInternalServerError :: nat where "StatusInternalServerError = 500"

definition newline :: string where
  "newline = [CHR 0x0A]"

definition quoted :: "string \<Rightarrow> string" where
  "quoted s = [CHR 0x27] @ s @ [CHR 0x27]"

definition WriteHeader :: "ResponseWriter \<Rightarrow> nat \<Rightarrow> ResponseWriter" where
  "WriteHeader w code = (if status w = None then w\<lparr>status := Some code\<rparr> else w)"

definition Header_Set :: "ResponseWriter \<Rightarrow> string \<Rightarrow> string \<Rightarrow> ResponseWriter" where
  "Header_Set w key v = (if status w = None then w\<lparr>header := (header w)(key \<mapsto> v)\<rparr> else w)"

definition Write :: "ResponseWriter \<Rightarrow> string \<Rightarrow> ResponseWriter" where
  "Write w bs = (let w' = WriteHeader w StatusOK in w'\<lparr>body := body w' @ bs\<rparr>)"

subsection \<open>URLs and paths\<close>

text \<open>
  What \<^verbatim>\<open>http.Redirect\<close> takes from \<^verbatim>\<open>net/url\<close>, \<^verbatim>\<open>path\<close> and \<^verbatim>\<open>strings\<close>. Strings are
  byte strings, as in Go.
\<close>

definition byte :: "char \<Rightarrow> nat" where
  "byte c = of_char c"

definition is_letter :: "char \<Rightarrow> bool" where
  "is_letter c = ((97 \<le> byte c \<and> byte c \<le> 122) \<or> (65 \<le> byte c \<and> byte c \<le> 90))"

definition is_digit :: "char \<Rightarrow> bool" where
  "is_digit c = (48 \<le> byte c \<and> byte c \<le> 57)"

definition ishex :: "char \<Rightarrow> bool" where
  "ishex c = (is_digit c \<or> (97 \<le> byte c \<and> byte c \<le> 102) \<or> (65 \<le> byte c \<and> byte c \<le> 70))"

text \<open>
  The two halves of \<^verbatim>\<open>strings.Cut(s, sep)\<close> for a separator of one byte, and the same
  around the last occurrence of the separator (\<^verbatim>\<open>strings.LastIndex\<close>). Without the
  separator the part before is the whole string and the part after is empty.
\<close>

definition before :: "char \<Rightarrow> string \<Rightarrow> string" where
  "before sep s = takeWhile (\<lambda>c. c \<noteq> sep) s"

definition after :: "char \<Rightarrow> string \<Rightarrow> string" where
  "after sep s = drop 1 (dropWhile (\<lambda>c. c \<noteq> sep) s)"

definition before_last :: "char \<Rightarrow> string \<Rightarrow> string" where
  "before_last sep s = rev (after sep (rev s))"

definition after_last :: "char \<Rightarrow> string \<Rightarrow> string" where
  "after_last sep s = rev (before sep (rev s))"

fun strings_Split :: "string \<Rightarrow> char \<Rightarrow> string list" where
  "strings_Split [] sep = [[]]"
| "strings_Split (c # cs) sep =
     (let rest = strings_Split cs sep
      in if c = sep then [] # rest else (c # hd rest) # tl rest)"

definition stringContainsCTLByte :: "string \<Rightarrow> bool" where
  "stringContainsCTLByte s = list_ex (\<lambda>c. byte c < 32 \<or> byte c = 127) s"

text \<open>
  \<^verbatim>\<open>getScheme\<close> of net/url: the scheme and the rest, when the string starts with a
  letter followed by letters, digits, \<^verbatim>\<open>+\<close>, \<^verbatim>\<open>-\<close> and \<^verbatim>\<open>.\<close> up to a colon; no scheme
  otherwise; an error when the string starts with the colon.
\<close>

fun getScheme_from :: "nat \<Rightarrow> string \<Rightarrow> string \<Rightarrow> error + string \<times> string" where
  "getScheme_from i rawURL [] = Inr ('''', rawURL)"
| "getScheme_from i rawURL (c # cs) =
     (if is_letter c then getScheme_from (Suc i) rawURL cs
      else if is_digit c \<or> c = CHR ''+'' \<or> c = CHR ''-'' \<or> c = CHR ''.'' then
        (if i = 0 then Inr ('''', rawURL) else getScheme_from (Suc i) rawURL cs)
      else if c = CHR '':'' then
        (if i = 0 then Inl (Error ''missing protocol scheme'')
         else Inr (take i rawURL, drop (Suc i) rawURL))
      else Inr ('''', rawURL))"

definition getScheme :: "string \<Rightarrow> error + string \<times> string" where
  "getScheme rawURL = getScheme_from 0 rawURL rawURL"

text \<open>
  Unescaping a path, a fragment or user information succeeds exactly when every \<^verbatim>\<open>%\<close>
  is followed by two hexadecimal digits.
\<close>

function valid_escapes :: "string \<Rightarrow> bool" where
  "valid_escapes [] = True"
| "valid_escapes (c # cs) =
     (if c = CHR ''%'' then
        2 \<le> length cs \<and> ishex (cs ! 0) \<and> ishex (cs ! 1) \<and> valid_escapes (drop 2 cs)
      else valid_escapes cs)"
  by pat_completeness auto
termination
  by (relation "measure length") auto

definition validUserinfo :: "string \<Rightarrow> bool" where
  "validUserinfo s =
     list_all (\<lambda>c. is_letter c \<or> is_digit c \<or> c \<in> set ''-._:~!$&()*+,;=%@'' \<or> byte c = 39) s"

text \<open>
  \<^verbatim>\<open>parseAuthority\<close> of net/url succeeds with an empty host exactly when nothing follows
  the last \<^verbatim>\<open>@\<close> of the authority (or the authority is empty) and the user information
  before it is well formed. An authority with anything after the last \<^verbatim>\<open>@\<close> gives a
  host that is not empty, or an error.
\<close>

definition empty_host_authority :: "string \<Rightarrow> bool" where
  "empty_host_authority authority =
     (if CHR ''@'' \<notin> set authority then authority = ''''
      else after_last (CHR ''@'') authority = '''' \<and>
           (let userinfo = before_last (CHR ''@'') authority
            in validUserinfo userinfo \<and>
               (if CHR '':'' \<notin> set userinfo then valid_escapes userinfo
                else valid_escapes (before (CHR '':'') userinfo) \<and>
                     valid_escapes (after (CHR '':'') userinfo))))"

text \<open>
  The test that \<^verbatim>\<open>http.Redirect\<close> makes on its target: \<^verbatim>\<open>url.Parse(url)\<close> returns no
  error, and the URL it returns has an empty \<^verbatim>\<open>Scheme\<close> and an empty \<^verbatim>\<open>Host\<close>. It follows
  \<^verbatim>\<open>url.Parse\<close> step by step: the fragment is cut off; a control byte is an error; \<^verbatim>\<open>*\<close>
  is a path; a scheme, when there is one, makes the test fail whatever follows; the
  query is cut off; a first path segment with a colon is an error; a leading \<^verbatim>\<open>//\<close> (but
  not \<^verbatim>\<open>///\<close>) starts an authority; the path and the fragment must unescape.
\<close>

definition url_is_relative :: "string \<Rightarrow> bool" where
  "url_is_relative rawURL =
     (let u = before (CHR ''#'') rawURL; frag = after (CHR ''#'') rawURL
      in if stringContainsCTLByte u then False
         else if u = ''*'' then valid_escapes frag
         else case getScheme u of
                Inl err \<Rightarrow> False
              | Inr (scheme, rest0) \<Rightarrow>
                  if scheme \<noteq> '''' then False
                  else let rest = before (CHR ''?'') rest0
                       in if take 1 rest \<noteq> ''/'' \<and> CHR '':'' \<in> set (before (CHR ''/'') rest)
                          then False
                          else if take 2 rest = ''//'' \<and> take 3 rest \<noteq> ''///'' then
                            empty_host_authority (before (CHR ''/'') (drop 2 rest)) \<and>
                            valid_escapes (dropWhile (\<lambda>c. c \<noteq> CHR ''/'') (drop 2 rest)) \<and>
                            valid_escapes frag
                          else valid_escapes rest \<and> valid_escapes frag)"

text \<open>\<^verbatim>\<open>path.Split\<close>: the path up to and with its last slash, and what follows it.\<close>

definition path_Split :: "string \<Rightarrow> string \<times> string" where
  "path_Split p = (rev (dropWhile (\<lambda>c. c \<noteq> CHR ''/'') (rev p)), after_last (CHR ''/'') p)"

text \<open>
  \<^verbatim>\<open>path.Clean\<close>, element by element: empty elements and \<^verbatim>\<open>.\<close> are dropped; \<^verbatim>\<open>..\<close> removes
  the element before it, is dropped at the root, and is kept at the start of a path
  that is not rooted. The elements written so far are held last first.
\<close>

fun path_Clean_element :: "bool \<Rightarrow> string list \<Rightarrow> string \<Rightarrow> string list" where
  "path_Clean_element rooted out elem =
     (if elem = '''' \<or> elem = ''.'' then out
      else if elem = ''..'' then
        (if out \<noteq> [] \<and> hd out \<noteq> ''..'' then tl out
         else if \<not> rooted then ''..'' # out
         else out)
      else elem # out)"

fun join_slash :: "string list \<Rightarrow> string" where
  "join_slash [] = ''''"
| "join_slash [e] = e"
| "join_slash (e # es) = e @ ''/'' @ join_slash es"

definition path_Clean :: "string \<Rightarrow> string" where
  "path_Clean p =
     (let rooted = (take 1 p = ''/'');
          out = rev (foldl (path_Clean_element rooted) [] (strings_Split p (CHR ''/'')))
      in if rooted then ''/'' @ join_slash out
         else if out = [] then ''.'' else join_slash out)"

text \<open>
  What \<^verbatim>\<open>http.Redirect\<close> makes of a target with neither scheme nor host: a target that
  does not start with a slash is put behind the directory of the request path; the
  part before the query is cleaned, keeping a trailing slash.
\<close>

definition Redirect_target :: "string \<Rightarrow> string \<Rightarrow> string" where
  "Redirect_target path0 url =
     (let oldpath = (if path0 = '''' then ''/'' else path0);
          url1 = (if take 1 url \<noteq> ''/'' then fst (path_Split oldpath) @ url else url);
          url2 = before (CHR ''?'') url1;
          query = dropWhile (\<lambda>c. c \<noteq> CHR ''?'') url1;
          trailing = (url2 \<noteq> [] \<and> last url2 = CHR ''/'');
          cleaned = path_Clean url2;
          url3 = (if trailing \<and> \<not> (cleaned \<noteq> [] \<and> last cleaned = CHR ''/'')
                  then cleaned @ ''/'' else cleaned)
      in url3 @ query)"

definition hexdigit :: "nat \<Rightarrow> char" where
  "hexdigit n = ''0123456789abcdef'' ! n"

definition hexEscapeNonASCII :: "string \<Rightarrow> string" where
  "hexEscapeNonASCII s =
     concat (map (\<lambda>c. if 128 \<le> byte c
                       then [CHR ''%'', hexdigit (byte c div 16), hexdigit (byte c mod 16)]
                       else [c]) s)"

definition htmlEscape :: "string \<Rightarrow> string" where
  "htmlEscape s =
     concat (map (\<lambda>c. if c = CHR ''&'' then ''&amp;''
                       else if c = CHR ''<'' then ''&lt;''
                       else if c = CHR ''>'' then ''&gt;''
                       else if byte c = 34 then ''&#34;''
                       else if byte c = 39 then ''&#39;''
                       else [c]) s)"

text \<open>\<^verbatim>\<open>http.StatusText\<close>: the reason phrase of a status code, empty for an unknown code.\<close>

definition StatusText :: "nat \<Rightarrow> string" where
  "StatusText code =
     (case map_of
        [(100, ''Continue''), (101, ''Switching Protocols''), (102, ''Processing''),
         (103, ''Early Hints''),
         (200, ''OK''), (201, ''Created''), (202, ''Accepted''),
         (203, ''Non-Authoritative Information''), (204, ''No Content''),
         (205, ''Reset Content''), (206, ''Partial Content''), (207, ''Multi-Status''),
         (208, ''Already Reported''), (226, ''IM Used''),
         (300, ''Multiple Choices''), (301, ''Moved Permanently''), (302, ''Found''),
         (303, ''See Other''), (304, ''Not Modified''), (305, ''Use Proxy''),
         (307, ''Temporary Redirect''), (308, ''Permanent Redirect''),
         (400, ''Bad Request''), (401, ''Unauthorized''), (402, ''Payment Required''),
         (403, ''Forbidden''), (404, ''Not Found''), (405, ''Method Not Allowed''),
         (406, ''Not Acceptable''), (407, ''Proxy Authentication Required''),
         (408, ''Request Timeout''), (409, ''Conflict''), (410, ''Gone''),
         (411, ''Length Required''), (412, ''Precondition Failed''),
         (413, ''Request Entity Too Large''), (414, ''Request URI Too Long''),
         (415, ''Unsupported Media Type''), (416, ''Requested Range Not Satisfiable''),
         (417, ''Expectation Failed''), (418, ''I'' @ [CHR 0x27] @ ''m a teapot''),
         (421, ''Misdirected Request''), (422, ''Unprocessable Entity''), (423, ''Locked''),
         (424, ''Failed Dependency''), (425, ''Too Early''), (426, ''Upgrade Required''),
         (428, ''Precondition Required''), (429, ''Too Many Requests''),
         (431, ''Request Header Fields Too Large''),
         (451, ''Unavailable For Legal Reasons''),
         (500, ''Internal Server Error''), (501, ''Not Implemented''), (502, ''Bad Gateway''),
         (503, ''Service Unavailable''), (504, ''Gateway Timeout''),
         (505, ''HTTP Version Not Supported''), (506, ''Variant Also Negotiates''),
         (507, ''Insufficient Storage''), (508, ''Loop Detected''), (510, ''Not Extended''),
         (511, ''Network Authentication Required'')] code of
        None \<Rightarrow> ''''
      | Some phrase \<Rightarrow> phrase)"

subsection \<open>Replies of net/http\<close>

text \<open>
  \<^verbatim>\<open>http.Error(w, error, code)\<close> of net/http: a plain-text reply with the given status.
\<close>

definition http_Error :: "ResponseWriter \<Rightarrow> string \<Rightarrow> nat \<Rightarrow> ResponseWriter" where
  "http_Error w msg code =
     (let w1 = Header_Set w ''Content-Type'' ''text/plain; charset=utf-8'';
          w2 = Header_Set w1 ''X-Content-Type-Options'' ''nosniff'';
          w3 = WriteHeader w2 code
      in Write w3 (msg @ newline))"

text \<open>
  \<^verbatim>\<open>http.Redirect(w, r, url, code)\<close> of net/http. A target that parses with neither scheme
  nor host is made an absolute path from the request path; any other target is taken
  as it is. The \<^verbatim>\<open>Location\<close> field is the target with its bytes outside ASCII
  percent-escaped. For a GET or HEAD request with no content type set the content type
  is HTML, and for a GET request the body is a short HTML note with a link to the
  target.
\<close>

definition http_Redirect :: "ResponseWriter \<Rightarrow> Request \<Rightarrow> string \<Rightarrow> nat \<Rightarrow> ResponseWriter" where
  "http_Redirect w r url0 code =
     (let url = (if url_is_relative url0 then Redirect_target (URL_Path r) url0 else url0);
          hadCT = (header w ''Content-Type'' \<noteq> None);
          w1 = Header_Set w ''Location'' (hexEscapeNonASCII url);
          w2 = (if \<not> hadCT \<and> (Method r = ''GET'' \<or> Method r = ''HEAD'')
                then Header_Set w1 ''Content-Type'' ''text/html; charset=utf-8''
                else w1);
          w3 = WriteHeader w2 code
      in if \<not> hadCT \<and> Method r = ''GET''
         then Write w3 (''<a href='' @ [CHR 0x22] @ htmlEscape url @ [CHR 0x22] @ ''>''
                        @ StatusText code @ ''</a>.'' @ newline @ newline)
         else w3)"

text \<open>
  \<^verbatim>\<open>json.NewEncoder(w).Encode(data)\<close>: the bytes of the object and a newline are written
  to the response; when marshalling fails nothing is written (the caller below drops
  the error).
\<close>

definition json_Encode :: "Marshal \<Rightarrow> ResponseWriter \<Rightarrow> json_object \<Rightarrow> ResponseWriter" where
  "json_Encode M w data = (case M data of Inl err \<Rightarrow> w | Inr bs \<Rightarrow> Write w (bs @ newline))"

definition respondJSON :: "Marshal \<Rightarrow> ResponseWriter \<Rightarrow> nat \<Rightarrow> json_object \<Rightarrow> ResponseWriter" where
  "respondJSON M w code data =
     (let w1 = Header_Set w ''Content-Type'' ''application/json'';
          w2 = WriteHeader w1 code
      in json_Encode M w2 data)"

subsection \<open>The mapping store\<close>

text \<open>
  The Redis server as the client sees it during one request: reachable, holding string
  values under string keys, or with every attempt failing on the connection.
\<close>

datatype Redis = Redis_Up "string \<rightharpoonup> string" | Redis_Down string

datatype redis_cmd = GET string | PING

text \<open>One attempt at a command: the reply and the error.\<close>

fun redis_attempt :: "Redis \<Rightarrow> redis_cmd \<Rightarrow> string \<times> error option" where
  "redis_attempt (Redis_Up store) (GET key) =
     (case store key of None \<Rightarrow> ('''', Some redis_Nil) | Some v \<Rightarrow> (v, None))"
| "redis_attempt (Redis_Up store) PING = (''PONG'', None)"
| "redis_attempt (Redis_Down msg) cmd = ('''', Some (net_Error msg))"

text \<open>
  \<^verbatim>\<open>shouldRetry\<close> of go-redis: a failure of the connection is retried, and so are a few
  error replies of the server; \<^verbatim>\<open>redis.Nil\<close> and the other replies are not.
\<close>

fun shouldRetry :: "error \<Rightarrow> bool" where
  "shouldRetry redis_Nil = False"
| "shouldRetry (net_Error msg) = True"
| "shouldRetry (Error msg) =
     (msg = ''ERR max number of clients reached'' \<or>
      take 8 msg = ''LOADING '' \<or> take 9 msg = ''READONLY '' \<or>
      take 12 msg = ''CLUSTERDOWN '' \<or> take 9 msg = ''TRYAGAIN '')"

text \<open>
  \<^verbatim>\<open>initRedis\<close> builds the client from \<^verbatim>\<open>redis.Options\<close> with \<^verbatim>\<open>Addr\<close>, \<^verbatim>\<open>Password\<close> and
  \<^verbatim>\<open>DB\<close> only. go-redis replaces the \<^verbatim>\<open>MaxRetries\<close> left unset by its default of three
  retries.
\<close>

definition redisClient_MaxRetries :: nat where
  "redisClient_MaxRetries = 3"

text \<open>
  The client's \<^verbatim>\<open>process\<close>: the command is attempted, and attempted again while the
  error is one to retry and retries are left. It returns the outcome of the last
  attempt and the commands sent, one per attempt. The pauses between attempts are not
  modelled.
\<close>

fun process :: "nat \<Rightarrow> Redis \<Rightarrow> redis_cmd \<Rightarrow> (string \<times> error option) \<times> redis_cmd list" where
  "process 0 srv cmd = (redis_attempt srv cmd, [cmd])"
| "process (Suc retries) srv cmd =
     (case redis_attempt srv cmd of
        (v, None) \<Rightarrow> ((v, None), [cmd])
      | (v, Some err) \<Rightarrow>
          (if shouldRetry err
           then (let (result, sent) = process retries srv cmd in (result, cmd # sent))
           else ((v, Some err), [cmd])))"

text \<open>\<^verbatim>\<open>redisClient.Get(ctx, key).Result()\<close> and \<^verbatim>\<open>redisClient.Ping(ctx).Result()\<close>.\<close>

definition redis_Get :: "Redis \<Rightarrow> string \<Rightarrow> (string \<times> error option) \<times> redis_cmd list" where
  "redis_Get srv key = process redisClient_MaxRetries srv (GET key)"

definition redis_Ping :: "Redis \<Rightarrow> (string \<times> error option) \<times> redis_cmd list" where
  "redis_Ping srv = process redisClient_MaxRetries srv PING"

subsection \<open>The event log\<close>

record Message =
  Key :: string
  Value :: string

text \<open>
  The \<^verbatim>\<open>kafka.Writer\<close> that \<^verbatim>\<open>initKafka\<close> builds. \<open>Balancer\<close> is the state of the
  \<^verbatim>\<open>kafka.LeastBytes\<close> balancer: the bytes routed so far to each partition (empty for a
  balancer that has not routed yet). The byte totals are \<^verbatim>\<open>uint64\<close> in the library and
  stay far below its range; they are natural numbers here.
\<close>

record Writer =
  Addr :: "string list"
  Topic :: string
  Balancer :: "nat list"
  BatchSize :: nat
  RequiredAcks :: int
  Async :: bool

text \<open>
  The cluster as the writer meets it. \<open>Accepting\<close>: writes succeed. \<open>Unreachable\<close>: the
  writer cannot learn the topic's partitions, so the call fails before anything is
  handed off. \<open>Rejecting\<close>: the partitions are known and the write itself fails. The
  topic's log is one list of messages per partition, each in arrival order.
\<close>

datatype Broker = Accepting | Unreachable string | Rejecting string

record Kafka =
  broker :: Broker
  partitions :: "Message list list"

text \<open>
  \<^verbatim>\<open>LeastBytes.Balance\<close> of kafka-go: the counters are reset when the number of
  partitions has changed; the partition with the fewest bytes is chosen, the first
  such in partition order; the message's key and value lengths are added to its
  counter. The key's content plays no part in the choice. The writer calls it with the
  partitions of an existing topic, at least one.
\<close>

fun leastIndex :: "nat \<Rightarrow> nat \<Rightarrow> nat \<Rightarrow> nat list \<Rightarrow> nat" where
  "leastIndex i minIndex minBytes [] = minIndex"
| "leastIndex i minIndex minBytes (c # cs) =
     (if c < minBytes then leastIndex (Suc i) i c cs
      else leastIndex (Suc i) minIndex minBytes cs)"

definition LeastBytes_Balance :: "nat list \<Rightarrow> Message \<Rightarrow> nat \<Rightarrow> nat \<times> nat list" where
  "LeastBytes_Balance counters msg n =
     (let cs = (if n \<noteq> length counters then replicate n 0 else counters);
          minIndex = leastIndex 1 0 (hd cs) (tl cs)
      in (minIndex, cs[minIndex := cs ! minIndex + length (Key msg) + length (Value msg)]))"

text \<open>
  The size of a message as the writer counts it, the key and the value with 23 bytes
  of framing, and the writer's limit for it. \<^verbatim>\<open>initKafka\<close> sets no \<^verbatim>\<open>BatchBytes\<close>, so
  the limit is the library's default of one mebibyte.
\<close>

definition Message_totalSize :: "Message \<Rightarrow> nat" where
  "Message_totalSize msg = 23 + length (Key msg) + length (Value msg)"

definition Writer_batchBytes :: nat where
  "Writer_batchBytes = 1048576"

definition MessageSizeTooLarge :: error where
  "MessageSizeTooLarge = Error (''[10] Message Size Too Large: the server has a configurable ''
     @ ''maximum message size to avoid unbounded memory allocation and the client attempted ''
     @ ''to produce a message larger than this maximum'')"

definition UnknownTopicOrPartition :: error where
  "UnknownTopicOrPartition = Error (''[3] Unknown Topic Or Partition: the request is for a ''
     @ ''topic or partition that does not exist on this broker'')"

text \<open>
  \<^verbatim>\<open>Writer.WriteMessages\<close> of kafka-go for one message, by its documented contract.
  A message over the size limit is refused at once. The writer then asks for the
  topic's partitions (an error here is returned to the caller, also in asynchronous
  mode; a topic without partitions is a topic the cluster does not know), lets the
  balancer choose the partition and hands the message off. With \<open>Async\<close> set the call
  returns \<^verbatim>\<open>nil\<close> at the hand-off and the outcome of the write is not reported to the
  caller; otherwise the outcome is the result of the call. It returns the error, the
  writer and the cluster.
\<close>

definition WriteMessages :: "Writer \<Rightarrow> Kafka \<Rightarrow> Message \<Rightarrow> error option \<times> Writer \<times> Kafka" where
  "WriteMessages wr k msg =
     (if Writer_batchBytes < Message_totalSize msg then (Some MessageSizeTooLarge, wr, k)
      else case broker k of
        Unreachable e \<Rightarrow> (Some (Error e), wr, k)
      | Accepting \<Rightarrow>
          (if partitions k = [] then (Some UnknownTopicOrPartition, wr, k)
           else let (p, lb) = LeastBytes_Balance (Balancer wr) msg (length (partitions k))
                in (None, wr\<lparr>Balancer := lb\<rparr>,
                    k\<lparr>partitions := (partitions k)[p := partitions k ! p @ [msg]]\<rparr>))
      | Rejecting e \<Rightarrow>
          (if partitions k = [] then (Some UnknownTopicOrPartition, wr, k)
           else let (p, lb) = LeastBytes_Balance (Balancer wr) msg (length (partitions k))
                in (if Async wr then None else Some (Error e), wr\<lparr>Balancer := lb\<rparr>, k)))"

section \<open>The redirect service: state and operations\<close>

text \<open>
  Everything the service touches: the store and the commands the client has attempted
  on it, one entry per attempt, the writer
  (the global \<^verbatim>\<open>kafkaWriter\<close>), the cluster and the messages passed to
  \<^verbatim>\<open>WriteMessages\<close>, the lines given to \<^verbatim>\<open>log.Printf\<close> (without their final newline),
  and whether the process has exited (\<^verbatim>\<open>log.Fatalf\<close>).
\<close>

record World =
  redis :: Redis
  redisCalls :: "redis_cmd list"
  kafkaWriter :: Writer
  kafka :: Kafka
  kafkaCalls :: "Message list"
  logs :: "string list"
  exited :: bool

definition log_Printf :: "World \<Rightarrow> string \<Rightarrow> World" where
  "log_Printf world line = world\<lparr>logs := logs world @ [line]\<rparr>"

definition getEnv :: "(string \<rightharpoonup> string) \<Rightarrow> string \<Rightarrow> string \<Rightarrow> string" where
  "getEnv env key defaultValue =
     (let v = map_index env key in if v \<noteq> '''' then v else defaultValue)"

definition initRedis :: "World \<Rightarrow> World" where
  "initRedis world =
     (let ((pong, err), sent) = redis_Ping (redis world);
          world1 = world\<lparr>redisCalls := redisCalls world @ sent\<rparr>
      in case err of
           Some e \<Rightarrow> (log_Printf world1 (''Failed to connect to Redis: '' @ Error_text e))\<lparr>exited := True\<rparr>
         | None \<Rightarrow> world1)"

definition initKafka :: "(string \<rightharpoonup> string) \<Rightarrow> World \<Rightarrow> World" where
  "initKafka env world =
     (let brokers = strings_Split (getEnv env ''KAFKA_BROKERS'' ''localhost:9092'') (CHR '','');
          topic = getEnv env ''KAFKA_TOPIC'' ''url-clicks''
      in log_Printf
           (world\<lparr>kafkaWriter :=
              \<lparr>Addr = brokers, Topic = topic, Balancer = [], BatchSize = 1,
               RequiredAcks = 1, Async = True\<rparr>\<rparr>)
           ''[Redirect Service] Kafka writer initialized'')"

definition getIP :: "Request \<Rightarrow> string" where
  "getIP r =
     (let forwarded = Header_Get (Header r) ''X-Forwarded-For''
      in if forwarded \<noteq> '''' then forwarded
         else let realIP = Header_Get (Header r) ''X-Real-IP''
              in if realIP \<noteq> '''' then realIP
                 else RemoteAddr r)"

definition healthHandler :: "Marshal \<Rightarrow> Time \<Rightarrow> ResponseWriter \<Rightarrow> Request \<Rightarrow> World \<Rightarrow> ResponseWriter \<times> World" where
  "healthHandler M now w r world =
     (let ((pong, err), sent) = redis_Ping (redis world);
          world1 = world\<lparr>redisCalls := redisCalls world @ sent\<rparr>;
          status = (if err \<noteq> None then ''unhealthy'' else ''healthy'');
          response = \<lparr>Status = status, Service = ''redirect-service'',
                      HealthResponse.Timestamp = now\<rparr>
      in (respondJSON M w StatusOK (HealthResponse_json response), world1))"

text \<open>
  \<^verbatim>\<open>publishClickEvent(shortCode, r)\<close>, run at time \<open>now\<close>. It has the short code and the
  request, and no access to the response.
\<close>

definition publishClickEvent :: "Marshal \<Rightarrow> string \<Rightarrow> Request \<Rightarrow> Time \<Rightarrow> World \<Rightarrow> World" where
  "publishClickEvent M shortCode r now world =
     (let event = \<lparr>ShortCode = shortCode, Timestamp = now,
                   UserAgent = Request_UserAgent r, IP = getIP r\<rparr>
      in case M (ClickEvent_json event) of
           Inl err \<Rightarrow>
             log_Printf world
               (''[Redirect Service] Failed to marshal click event: '' @ Error_text err)
         | Inr jsonData \<Rightarrow>
             (let msg = \<lparr>Key = shortCode, Value = jsonData\<rparr>;
                  (err, wr, k) = WriteMessages (kafkaWriter world) (kafka world) msg;
                  world1 = world\<lparr>kafkaWriter := wr, kafka := k,
                                 kafkaCalls := kafkaCalls world @ [msg]\<rparr>
              in case err of
                   Some e \<Rightarrow>
                     log_Printf world1
                       (''[Redirect Service] Failed to publish to Kafka: '' @ Error_text e)
                 | None \<Rightarrow>
                     log_Printf world1
                       (''[Redirect Service] Published click event for '' @ quoted shortCode
                        @ '' to Kafka'')))"

text \<open>
  A goroutine started by a \<^verbatim>\<open>go\<close> statement: the call it will make. The handler returns
  the goroutines it started; they run after, or beside, the handler's own work.
\<close>

datatype Goroutine = Go_publishClickEvent string Request

fun run :: "Marshal \<Rightarrow> Time \<Rightarrow> World \<Rightarrow> Goroutine \<Rightarrow> World" where
  "run M now world (Go_publishClickEvent shortCode r) = publishClickEvent M shortCode r now world"

definition redirectHandler :: "ResponseWriter \<Rightarrow> Request \<Rightarrow> World \<Rightarrow> ResponseWriter \<times> Goroutine list \<times> World" where
  "redirectHandler w r world =
     (let shortCode = map_index (Vars r) ''shortCode'';
          ((originalURL, err), sent) = redis_Get (redis world) (''url:'' @ shortCode);
          world1 = world\<lparr>redisCalls := redisCalls world @ sent\<rparr>
      in if err = Some redis_Nil then
           (http_Error w ''Short URL not found'' StatusNotFound, [],
            log_Printf world1
              (''[Redirect Service] Short code '' @ quoted shortCode @ '' not found''))
         else if err \<noteq> None then
           (http_Error w ''Internal server error'' StatusInternalServerError, [],
            log_Printf world1
              (''[Redirect Service] Redis error: '' @ Error_text (the err)))
         else
           (http_Redirect w r originalURL StatusFound,
            [Go_publishClickEvent shortCode r],
            log_Printf world1
              (''[Redirect Service] Redirecting '' @ quoted shortCode @ '' to '' @ originalURL)))"

text \<open>
  One redirect request from end to end: the handler, then the goroutines it started,
  each run at time \<open>now\<close>.
\<close>

definition serveRedirect :: "Marshal \<Rightarrow> Time \<Rightarrow> ResponseWriter \<Rightarrow> Request \<Rightarrow> World \<Rightarrow> ResponseWriter \<times> World" where
  "serveRedirect M now w r world =
     (let (w', started, world') = redirectHandler w r world
      in (w', foldl (run M now) world' started))"

section \<open>The specification's wording\<close>

text \<open>
  The client address as the specification words it: of the forwarded-for header and the
  real-ip header, in that order, the first value that is not empty; the raw peer
  address when both are empty.
\<close>

definition client_address_spec :: "Request \<Rightarrow> string" where
  "client_address_spec r =
     (case filter (\<lambda>a. a \<noteq> [])
             [Header_Get (Header r) ''X-Forwarded-For'', Header_Get (Header r) ''X-Real-IP''] of
        [] \<Rightarrow> RemoteAddr r
      | a # _ \<Rightarrow> a)"

text \<open>
  A destination that is a URL in the strict sense: it carries a scheme (the part
  before its first colon, as in \<^verbatim>\<open>https://example.com\<close>), and it is written in visible
  ASCII, with no space, control byte or byte outside ASCII.
\<close>

definition url_scheme :: "string \<Rightarrow> string" where
  "url_scheme rawURL =
     (case getScheme (before (CHR ''#'') rawURL) of
        Inl err \<Rightarrow> ''''
      | Inr (scheme, rest) \<Rightarrow> scheme)"

definition is_visible_ascii :: "string \<Rightarrow> bool" where
  "is_visible_ascii s = list_all (\<lambda>c. 33 \<le> byte c \<and> byte c \<le> 126) s"

section \<open>A worked example\<close>

text \<open>
  A fresh response, a request for \<^verbatim>\<open>/abc123\<close>, an encoder that succeeds, and the state
  of the service after start-up (\<^verbatim>\<open>initKafka\<close> with an empty environment) for a given
  store and cluster. The theorems below are instantiated on them.
\<close>

definition newResponseWriter :: ResponseWriter where
  "newResponseWriter = \<lparr>status = None, header = Map.empty, body = ''''\<rparr>"

definition example_request :: Request where
  "example_request =
     \<lparr>Method = ''GET'',
      URL_Path = ''/abc123'',
      Header = (\<lambda>key. if key = ''User-Agent'' then [''curl/8.4.0''] else []),
      RemoteAddr = ''10.0.0.7:51234'',
      Vars = [''shortCode'' \<mapsto> ''abc123'']\<rparr>"

definition example_Marshal :: Marshal where
  "example_Marshal data = Inr ''{}''"

definition example_store :: Redis where
  "example_store = Redis_Up [''url:abc123'' \<mapsto> ''https://example.com'']"

definition example_world :: "Redis \<Rightarrow> Kafka \<Rightarrow> World" where
  "example_world store cluster =
     initKafka Map.empty
       \<lparr>redis = store, redisCalls = [],
        kafkaWriter = \<lparr>Addr = [], Topic = '''', Balancer = [], BatchSize = 0,
                       RequiredAcks = 0, Async = False\<rparr>,
        kafka = cluster, kafkaCalls = [], logs = [], exited = False\<rparr>"

section \<open>Properties\<close>

subsection \<open>Auxiliary facts\<close>

lemma example_world_simps [simp]:
  "redis (example_world store cluster) = store"
  "kafka (example_world store cluster) = cluster"
  "kafkaCalls (example_world store cluster) = []"
  "redisCalls (example_world store cluster) = []"
  "exited (example_world store cluster) = False"
  "logs (example_world store cluster) = [''[Redirect Service] Kafka writer initialized'']"
  "Async (kafkaWriter (example_world store cluster)) = True"
  "Balancer (kafkaWriter (example_world store cluster)) = []"
  by (simp_all add: example_world_def initKafka_def log_Printf_def Let_def)

lemma example_request_simps [simp]:
  "Vars example_request ''shortCode'' = Some ''abc123''"
  "Method example_request = ''GET''"
  "URL_Path example_request = ''/abc123''"
  "RemoteAddr example_request = ''10.0.0.7:51234''"
  "Request_UserAgent example_request = ''curl/8.4.0''"
  "getIP example_request = ''10.0.0.7:51234''"
  by (simp_all add: example_request_def Request_UserAgent_def getIP_def Header_Get_def)

lemma log_Printf_fields [simp]:
  "kafka (log_Printf world line) = kafka world"
  "kafkaCalls (log_Printf world line) = kafkaCalls world"
  "logs (log_Printf world line) = logs world @ [line]"
  by (simp_all add: log_Printf_def)

paragraph \<open>The store client\<close>

lemma process_result: "fst (process n srv cmd) = redis_attempt srv cmd"
  by (induction n) (auto split: prod.splits option.splits)

lemma process_sent_Up: "snd (process n (Redis_Up store) cmd) = [cmd]"
  by (cases n; cases cmd) (auto split: option.splits)

lemma process_sent_Down: "snd (process n (Redis_Down msg) cmd) = replicate (Suc n) cmd"
  by (induction n) (auto split: prod.splits)

lemma process_sent:
  "snd (process n srv cmd) =
     replicate (case snd (redis_attempt srv cmd) of
                  None \<Rightarrow> 1
                | Some e \<Rightarrow> if shouldRetry e then Suc n else 1) cmd"
  by (induction n) (auto split: prod.splits option.splits)

lemma redis_Get_Up:
  "redis_Get (Redis_Up store) key =
     ((case store key of None \<Rightarrow> ('''', Some redis_Nil) | Some v \<Rightarrow> (v, None)), [GET key])"
  using process_result [of redisClient_MaxRetries "Redis_Up store" "GET key"]
    process_sent_Up [of redisClient_MaxRetries store "GET key"]
  by (simp add: redis_Get_def prod_eq_iff)

lemma redis_Get_Down:
  "redis_Get (Redis_Down msg) key = (('''', Some (net_Error msg)), replicate 4 (GET key))"
  using process_result [of redisClient_MaxRetries "Redis_Down msg" "GET key"]
    process_sent_Down [of redisClient_MaxRetries msg "GET key"]
  by (simp add: redis_Get_def prod_eq_iff redisClient_MaxRetries_def)

lemma redis_Ping_Up: "redis_Ping (Redis_Up store) = ((''PONG'', None), [PING])"
  using process_result [of redisClient_MaxRetries "Redis_Up store" PING]
    process_sent_Up [of redisClient_MaxRetries store PING]
  by (simp add: redis_Ping_def prod_eq_iff)

lemma redis_Ping_Down:
  "redis_Ping (Redis_Down msg) = (('''', Some (net_Error msg)), replicate 4 PING)"
  using process_result [of redisClient_MaxRetries "Redis_Down msg" PING]
    process_sent_Down [of redisClient_MaxRetries msg PING]
  by (simp add: redis_Ping_def prod_eq_iff redisClient_MaxRetries_def)

lemma redis_Get_sent:
  "snd (redis_Get srv key) =
     replicate (if \<exists>m. srv = Redis_Up m then 1 else 4) (GET key)"
  by (cases srv) (simp_all add: redis_Get_Up redis_Get_Down)

lemma redis_Ping_sent:
  "snd (redis_Ping srv) = replicate (if \<exists>m. srv = Redis_Up m then 1 else 4) PING"
  by (cases srv) (simp_all add: redis_Ping_Up redis_Ping_Down)

lemma redis_Get_error_sent:
  assumes "snd (fst (redis_Get srv key)) = Some e"
  shows "snd (redis_Get srv key) = replicate (if shouldRetry e then 4 else 1) (GET key)"
  using assms
  by (cases srv) (auto simp add: redis_Get_Up redis_Get_Down split: option.splits)

lemma redis_Ping_ok: "(snd (fst (redis_Ping srv)) = None) = (\<exists>m. srv = Redis_Up m)"
  by (cases srv) (simp_all add: redis_Ping_Up redis_Ping_Down)

lemma initRedis_exits:
  "exited (initRedis world) = (exited world \<or> (\<exists>msg. redis world = Redis_Down msg))"
  by (cases "redis world")
    (simp_all add: initRedis_def log_Printf_def redis_Ping_Up redis_Ping_Down)

paragraph \<open>Responses\<close>

lemma status_http_Error: "status w = None \<Longrightarrow> status (http_Error w msg code) = Some code"
  by (simp add: http_Error_def Header_Set_def WriteHeader_def Write_def Let_def)

lemma header_http_Error_Location:
  "header (http_Error w msg code) ''Location'' = header w ''Location''"
  by (simp add: http_Error_def Header_Set_def WriteHeader_def Write_def Let_def)

lemma status_http_Redirect: "status w = None \<Longrightarrow> status (http_Redirect w r url code) = Some code"
  by (simp add: http_Redirect_def Header_Set_def WriteHeader_def Write_def Let_def)

lemma header_http_Redirect_Location:
  "status w = None \<Longrightarrow>
     header (http_Redirect w r url code) ''Location'' =
       Some (hexEscapeNonASCII
               (if url_is_relative url then Redirect_target (URL_Path r) url else url))"
  by (simp add: http_Redirect_def Header_Set_def WriteHeader_def Write_def Let_def)

lemma hexEscapeNonASCII_ascii: "is_visible_ascii s \<Longrightarrow> hexEscapeNonASCII s = s"
  by (induction s) (simp_all add: is_visible_ascii_def hexEscapeNonASCII_def)

lemma scheme_not_relative: "url_scheme url \<noteq> [] \<Longrightarrow> \<not> url_is_relative url"
proof
  assume scheme: "url_scheme url \<noteq> []" and rel: "url_is_relative url"
  show False
  proof (cases "before (CHR ''#'') url = ''*''")
    case True
    have "getScheme ''*'' = Inr ([], ''*'')" by code_simp
    with True scheme show False by (simp add: url_scheme_def)
  next
    case False
    with scheme rel show False
      by (auto simp add: url_is_relative_def url_scheme_def Let_def
          split: if_splits sum.splits prod.splits)
  qed
qed

lemma status_respondJSON:
  "status w = None \<Longrightarrow> status (respondJSON M w code data) = Some code"
  by (simp add: respondJSON_def json_Encode_def Header_Set_def WriteHeader_def Write_def Let_def
      split: sum.splits)

lemma body_respondJSON:
  "status w = None \<Longrightarrow> M data = Inr bs \<Longrightarrow>
     body (respondJSON M w code data) = body w @ bs @ newline \<and>
     header (respondJSON M w code data) ''Content-Type'' = Some ''application/json''"
  by (simp add: respondJSON_def json_Encode_def Header_Set_def WriteHeader_def Write_def Let_def)

paragraph \<open>The writer and its balancer\<close>

lemma WriteMessages_error_keeps_log:
  "fst (WriteMessages wr k msg) = Some e \<Longrightarrow> snd (snd (WriteMessages wr k msg)) = k"
  by (auto simp add: WriteMessages_def Let_def split: Broker.splits prod.splits if_splits)

lemma WriteMessages_too_large:
  assumes "Writer_batchBytes < Message_totalSize msg"
  shows "WriteMessages wr k msg = (Some MessageSizeTooLarge, wr, k)"
  using assms by (simp add: WriteMessages_def)

lemma WriteMessages_async_rejecting:
  assumes "Async wr" and "broker k = Rejecting e" and "partitions k \<noteq> []"
    and "\<not> Writer_batchBytes < Message_totalSize msg"
  shows "fst (WriteMessages wr k msg) = None" and "snd (snd (WriteMessages wr k msg)) = k"
  using assms by (simp_all add: WriteMessages_def Let_def split: prod.splits)

lemma WriteMessages_accepting:
  assumes "broker k = Accepting" and "partitions k \<noteq> []"
    and "\<not> Writer_batchBytes < Message_totalSize msg"
  shows "WriteMessages wr k msg =
     (None,
      wr\<lparr>Balancer := snd (LeastBytes_Balance (Balancer wr) msg (length (partitions k)))\<rparr>,
      k\<lparr>partitions := (partitions k)
          [fst (LeastBytes_Balance (Balancer wr) msg (length (partitions k))) :=
             partitions k ! fst (LeastBytes_Balance (Balancer wr) msg (length (partitions k)))
             @ [msg]]\<rparr>)"
  using assms by (simp add: WriteMessages_def Let_def split: prod.splits)

lemma fst_LeastBytes_Balance:
  "fst (LeastBytes_Balance counters msg n) =
     leastIndex 1 0 (hd (if n \<noteq> length counters then replicate n 0 else counters))
       (tl (if n \<noteq> length counters then replicate n 0 else counters))"
  by (simp add: LeastBytes_Balance_def Let_def)

lemma LeastBytes_Balance_any_key:
  "fst (LeastBytes_Balance counters msg n) = fst (LeastBytes_Balance counters msg' n)"
  by (simp add: fst_LeastBytes_Balance)

lemma LeastBytes_Balance_single:
  "fst (LeastBytes_Balance counters msg 1) = 0"
proof (cases "length counters = 1")
  case True
  then have "tl counters = []" by (cases counters) simp_all
  with True show ?thesis by (simp add: fst_LeastBytes_Balance)
next
  case False
  then show ?thesis by (simp add: fst_LeastBytes_Balance)
qed

lemma leastIndex_zero: "leastIndex i m 0 cs = m"
  by (induction cs arbitrary: i) simp_all

lemma LeastBytes_Balance_fresh:
  assumes "0 < n"
  shows "LeastBytes_Balance [] msg n =
           (0, (replicate n 0)[0 := length (Key msg) + length (Value msg)])"
proof -
  from assms obtain k where n: "n = Suc k" by (cases n) auto
  show ?thesis
    by (simp add: LeastBytes_Balance_def Let_def n leastIndex_zero)
qed

lemma LeastBytes_Balance_second:
  assumes "2 \<le> n" and "0 < s"
  shows "fst (LeastBytes_Balance ((replicate n 0)[0 := s]) msg n) = 1"
proof -
  from assms(1) obtain k where n: "n = Suc (Suc k)"
    by (cases n; cases "n - 1") auto
  show ?thesis
    using assms(2) by (simp add: fst_LeastBytes_Balance n leastIndex_zero)
qed

paragraph \<open>The publisher\<close>

lemma publishClickEvent_redis [simp]:
  "redis (publishClickEvent M C r now world) = redis world"
  "redisCalls (publishClickEvent M C r now world) = redisCalls world"
  "exited (publishClickEvent M C r now world) = exited world"
  by (simp_all add: publishClickEvent_def log_Printf_def Let_def
      split: sum.splits prod.splits option.splits)

lemma publishClickEvent_marshal_fails:
  assumes "M (ClickEvent_json \<lparr>ShortCode = C, Timestamp = now,
                   UserAgent = Request_UserAgent r, IP = getIP r\<rparr>) = Inl e"
  shows "publishClickEvent M C r now world =
     log_Printf world (''[Redirect Service] Failed to marshal click event: '' @ Error_text e)"
  using assms by (simp add: publishClickEvent_def)

lemma publishClickEvent_kafkaCalls:
  "kafkaCalls (publishClickEvent M C r now world) =
     (case M (ClickEvent_json \<lparr>ShortCode = C, Timestamp = now,
                   UserAgent = Request_UserAgent r, IP = getIP r\<rparr>) of
        Inl e \<Rightarrow> kafkaCalls world
      | Inr v \<Rightarrow> kafkaCalls world @ [\<lparr>Key = C, Value = v\<rparr>])"
  by (simp add: publishClickEvent_def log_Printf_def Let_def
      split: sum.splits prod.splits option.splits)

lemma publishClickEvent_kafka:
  assumes "M (ClickEvent_json \<lparr>ShortCode = C, Timestamp = now,
                   UserAgent = Request_UserAgent r, IP = getIP r\<rparr>) = Inr v"
  shows "kafka (publishClickEvent M C r now world) =
     snd (snd (WriteMessages (kafkaWriter world) (kafka world) \<lparr>Key = C, Value = v\<rparr>))"
    and "kafkaWriter (publishClickEvent M C r now world) =
     fst (snd (WriteMessages (kafkaWriter world) (kafka world) \<lparr>Key = C, Value = v\<rparr>))"
  using assms
  by (simp_all add: publishClickEvent_def log_Printf_def Let_def split: prod.splits option.splits)

lemma publishClickEvent_logs_write_error:
  assumes "M (ClickEvent_json \<lparr>ShortCode = C, Timestamp = now,
                   UserAgent = Request_UserAgent r, IP = getIP r\<rparr>) = Inr v"
    and "fst (WriteMessages (kafkaWriter world) (kafka world) \<lparr>Key = C, Value = v\<rparr>) = Some e"
  shows "logs (publishClickEvent M C r now world) =
     logs world @ [''[Redirect Service] Failed to publish to Kafka: '' @ Error_text e]"
  using assms
  by (auto simp add: publishClickEvent_def log_Printf_def Let_def
      split: sum.splits prod.splits option.splits)

lemma publishClickEvent_logs_write_ok:
  assumes "M (ClickEvent_json \<lparr>ShortCode = C, Timestamp = now,
                   UserAgent = Request_UserAgent r, IP = getIP r\<rparr>) = Inr v"
    and "fst (WriteMessages (kafkaWriter world) (kafka world) \<lparr>Key = C, Value = v\<rparr>) = None"
  shows "logs (publishClickEvent M C r now world) =
     logs world @ [''[Redirect Service] Published click event for '' @ quoted C @ '' to Kafka'']"
  using assms
  by (auto simp add: publishClickEvent_def log_Printf_def Let_def
      split: sum.splits prod.splits option.splits)

lemma publishClickEvent_kafka_accepting:
  assumes "M (ClickEvent_json \<lparr>ShortCode = C, Timestamp = now,
                   UserAgent = Request_UserAgent r, IP = getIP r\<rparr>) = Inr v"
    and "broker (kafka world) = Accepting" and "partitions (kafka world) \<noteq> []"
  shows "partitions (kafka (publishClickEvent M C r now world)) =
     (if Writer_batchBytes < Message_totalSize \<lparr>Key = C, Value = v\<rparr>
      then partitions (kafka world)
      else (partitions (kafka world))
       [fst (LeastBytes_Balance (Balancer (kafkaWriter world)) \<lparr>Key = C, Value = v\<rparr>
               (length (partitions (kafka world)))) :=
          partitions (kafka world) !
            fst (LeastBytes_Balance (Balancer (kafkaWriter world)) \<lparr>Key = C, Value = v\<rparr>
               (length (partitions (kafka world))))
          @ [\<lparr>Key = C, Value = v\<rparr>]])"
  using assms(2,3)
  by (simp add: publishClickEvent_kafka [where M = M, OF assms(1)] WriteMessages_accepting
      WriteMessages_too_large)

text \<open>
  On a writer that has not routed yet and a topic of two or more partitions, two
  successive events of one short code land in partitions 0 and 1, whatever bytes the
  encoder writes.
\<close>

lemma two_events_two_partitions:
  assumes m1: "M (ClickEvent_json \<lparr>ShortCode = C, Timestamp = now1,
                   UserAgent = Request_UserAgent r, IP = getIP r\<rparr>) = Inr v1"
    and m2: "M (ClickEvent_json \<lparr>ShortCode = C, Timestamp = now2,
                   UserAgent = Request_UserAgent r, IP = getIP r\<rparr>) = Inr v2"
    and code: "C \<noteq> []"
    and acc: "broker (kafka world) = Accepting"
    and fresh: "Balancer (kafkaWriter world) = []"
    and two: "2 \<le> length (partitions (kafka world))"
    and s1: "\<not> Writer_batchBytes < Message_totalSize \<lparr>Key = C, Value = v1\<rparr>"
    and s2: "\<not> Writer_batchBytes < Message_totalSize \<lparr>Key = C, Value = v2\<rparr>"
  shows "partitions (kafka (publishClickEvent M C r now2 (publishClickEvent M C r now1 world))) =
         (partitions (kafka world))
           [0 := partitions (kafka world) ! 0 @ [\<lparr>Key = C, Value = v1\<rparr>],
            1 := partitions (kafka world) ! 1 @ [\<lparr>Key = C, Value = v2\<rparr>]]"
proof -
  let ?ps = "partitions (kafka world)"
  let ?n = "length ?ps"
  let ?w1 = "publishClickEvent M C r now1 world"
  have ne: "?ps \<noteq> []" and pos: "0 < ?n" using two by auto
  have k1: "kafka ?w1 = (kafka world)\<lparr>partitions := ?ps[0 := ?ps ! 0 @ [\<lparr>Key = C, Value = v1\<rparr>]]\<rparr>"
    using pos
    by (simp add: publishClickEvent_kafka(1) [where M = M, OF m1]
        WriteMessages_accepting [OF acc ne s1] fresh LeastBytes_Balance_fresh)
  have b1: "Balancer (kafkaWriter ?w1) = (replicate ?n 0)[0 := length C + length v1]"
    using pos
    by (simp add: publishClickEvent_kafka(2) [where M = M, OF m1]
        WriteMessages_accepting [OF acc ne s1] fresh LeastBytes_Balance_fresh)
  have acc1: "broker (kafka ?w1) = Accepting" using acc by (simp add: k1)
  have ps1: "partitions (kafka ?w1) = ?ps[0 := ?ps ! 0 @ [\<lparr>Key = C, Value = v1\<rparr>]]"
    by (simp add: k1)
  have ne1: "partitions (kafka ?w1) \<noteq> []" using ne by (simp add: ps1)
  have len1: "length (partitions (kafka ?w1)) = ?n" by (simp add: ps1)
  have p2: "fst (LeastBytes_Balance (Balancer (kafkaWriter ?w1)) \<lparr>Key = C, Value = v2\<rparr>
               (length (partitions (kafka ?w1)))) = 1"
    unfolding b1 len1 using two code by (intro LeastBytes_Balance_second) auto
  have "partitions (kafka (publishClickEvent M C r now2 ?w1)) =
          (partitions (kafka ?w1))[1 := partitions (kafka ?w1) ! 1 @ [\<lparr>Key = C, Value = v2\<rparr>]]"
    using s2 p2
    by (simp add: publishClickEvent_kafka_accepting [where M = M, OF m2 acc1 ne1])
  then show ?thesis by (simp add: ps1)
qed

paragraph \<open>The redirect handler\<close>

lemma redirectHandler_redis [simp]:
  "redis (snd (snd (redirectHandler w r world))) = redis world"
  by (simp add: redirectHandler_def log_Printf_def Let_def split: prod.splits)

lemma redirectHandler_kafka [simp]:
  "kafka (snd (snd (redirectHandler w r world))) = kafka world"
  "kafkaCalls (snd (snd (redirectHandler w r world))) = kafkaCalls world"
  "kafkaWriter (snd (snd (redirectHandler w r world))) = kafkaWriter world"
  "exited (snd (snd (redirectHandler w r world))) = exited world"
  by (simp_all add: redirectHandler_def log_Printf_def Let_def split: prod.splits)

lemma redirectHandler_redisCalls:
  "redisCalls (snd (snd (redirectHandler w r world))) =
     redisCalls world @ snd (redis_Get (redis world) (''url:'' @ map_index (Vars r) ''shortCode''))"
  by (simp add: redirectHandler_def log_Printf_def Let_def split: prod.splits)

lemma redirectHandler_fst_cong:
  "redis world' = redis world \<Longrightarrow>
     fst (redirectHandler w r world') = fst (redirectHandler w r world)"
  by (simp add: redirectHandler_def Let_def split: prod.splits)

lemma redirectHandler_ignores_kafka:
  "fst (redirectHandler w r (world\<lparr>kafka := k, kafkaWriter := wr\<rparr>)) =
     fst (redirectHandler w r world)"
  by (rule redirectHandler_fst_cong) simp

lemma redirectHandler_found:
  assumes "fst (redis_Get (redis world) (''url:'' @ map_index (Vars r) ''shortCode''))
             = (D, None)"
  shows "fst (redirectHandler w r world) = http_Redirect w r D StatusFound"
  using assms by (auto simp add: redirectHandler_def Let_def split: prod.splits)

lemma redirectHandler_not_found:
  assumes "snd (fst (redis_Get (redis world) (''url:'' @ map_index (Vars r) ''shortCode'')))
             = Some redis_Nil"
  shows "fst (redirectHandler w r world) = http_Error w ''Short URL not found'' StatusNotFound"
    and "fst (snd (redirectHandler w r world)) = []"
  using assms by (auto simp add: redirectHandler_def Let_def split: prod.splits)

lemma redirectHandler_store_error:
  assumes "snd (fst (redis_Get (redis world) (''url:'' @ map_index (Vars r) ''shortCode'')))
             = Some e"
    and "e \<noteq> redis_Nil"
  shows "fst (redirectHandler w r world) =
           http_Error w ''Internal server error'' StatusInternalServerError"
    and "fst (snd (redirectHandler w r world)) = []"
  using assms by (auto simp add: redirectHandler_def Let_def split: prod.splits)

paragraph \<open>A request from end to end\<close>

lemma foldl_run_redis [simp]:
  "redis (foldl (run M now) world gs) = redis world"
  by (induction gs arbitrary: world) (simp, case_tac a, simp)

lemma foldl_run_redisCalls [simp]:
  "redisCalls (foldl (run M now) world gs) = redisCalls world"
  by (induction gs arbitrary: world) (simp, case_tac a, simp)

lemma serveRedirect_alt:
  "serveRedirect M now w r world =
     (fst (redirectHandler w r world),
      foldl (run M now) (snd (snd (redirectHandler w r world)))
        (fst (snd (redirectHandler w r world))))"
  by (simp add: serveRedirect_def split: prod.splits)

lemma serveRedirect_fst: "fst (serveRedirect M now w r world) = fst (redirectHandler w r world)"
  by (simp add: serveRedirect_alt)

lemma serveRedirect_redis [simp]:
  "redis (snd (serveRedirect M now w r world)) = redis world"
  by (simp add: serveRedirect_alt)

lemma serveRedirect_redisCalls:
  "redisCalls (snd (serveRedirect M now w r world)) =
     redisCalls world @ snd (redis_Get (redis world) (''url:'' @ map_index (Vars r) ''shortCode''))"
  by (simp add: serveRedirect_alt redirectHandler_redisCalls)

lemma serveRedirect_nothing_started:
  assumes "fst (snd (redirectHandler w r world)) = []"
  shows "snd (serveRedirect M now w r world) = snd (snd (redirectHandler w r world))"
  using assms by (simp add: serveRedirect_alt)

paragraph \<open>The health handler\<close>

lemma healthHandler_fst:
  "fst (healthHandler M now w r world) =
     respondJSON M w 200
       [(''status'', JString (if snd (fst (redis_Ping (redis world))) = None
                              then ''healthy'' else ''unhealthy'')),
        (''service'', JString ''redirect-service''),
        (''timestamp'', JTime now)]"
  by (simp add: healthHandler_def HealthResponse_json_def StatusOK_def Let_def split: prod.splits)

lemma healthHandler_redisCalls:
  "redisCalls (snd (healthHandler M now w r world)) =
     redisCalls world @ snd (redis_Ping (redis world))"
  by (simp add: healthHandler_def Let_def split: prod.splits)

paragraph \<open>The worked example\<close>

lemma example_destination:
  "url_scheme ''https://example.com'' = ''https''" "is_visible_ascii ''https://example.com''"
  by code_simp+

lemma example_relative:
  "url_is_relative ''example.com''"
  "Redirect_target ''/abc123'' ''example.com'' = ''/example.com''"
  "hexEscapeNonASCII ''/example.com'' = ''/example.com''"
  by code_simp+

lemma example_message_fits:
  "\<not> Writer_batchBytes < Message_totalSize \<lparr>Key = ''abc123'', Value = ''{}''\<rparr>"
  by (simp add: Writer_batchBytes_def Message_totalSize_def)

subsection \<open>Known short codes\<close>

text \<open>
  C1 (as amended). For every short code \<open>C\<close> that the mapping store holds under the key
  \<open>''url:'' @ C\<close> with destination \<open>D\<close>, the handler of \<^verbatim>\<open>GET /{shortCode}\<close>, called with
  the route variable bound to \<open>C\<close>, answers with status 302 (Found). Its \<^verbatim>\<open>Location\<close>
  header is what \<^verbatim>\<open>http.Redirect\<close> makes of \<open>D\<close>: a \<open>D\<close> with neither scheme nor host is
  made an absolute path from the request path, and bytes outside ASCII are
  percent-escaped. It is equal to \<open>D\<close> whenever \<open>D\<close> carries a scheme and is written in
  visible ASCII.
\<close>

theorem redirect_known_code:
  assumes "redis world = Redis_Up store" and "store (''url:'' @ C) = Some D"
    and "Vars r ''shortCode'' = Some C" and "status w = None"
  shows "status (fst (redirectHandler w r world)) = Some 302 \<and>
         header (fst (redirectHandler w r world)) ''Location'' =
           Some (hexEscapeNonASCII
                   (if url_is_relative D then Redirect_target (URL_Path r) D else D)) \<and>
         (url_scheme D \<noteq> [] \<longrightarrow> is_visible_ascii D \<longrightarrow>
            header (fst (redirectHandler w r world)) ''Location'' = Some D)"
proof -
  have ix: "map_index (Vars r) ''shortCode'' = C"
    using assms(3) by (simp add: map_index_def)
  have "fst (redis_Get (redis world) (''url:'' @ map_index (Vars r) ''shortCode'')) = (D, None)"
    using assms(1,2) ix by (simp add: redis_Get_Up)
  then have h: "fst (redirectHandler w r world) = http_Redirect w r D StatusFound"
    by (rule redirectHandler_found)
  show ?thesis
    using assms(4)
    by (simp add: h status_http_Redirect header_http_Redirect_Location StatusFound_def
        scheme_not_relative hexEscapeNonASCII_ascii)
qed

theorem redirect_known_code_witness:
  "status (fst (redirectHandler newResponseWriter example_request
       (example_world example_store \<lparr>broker = Accepting, partitions = [[]]\<rparr>))) = Some 302 \<and>
   header (fst (redirectHandler newResponseWriter example_request
       (example_world example_store \<lparr>broker = Accepting, partitions = [[]]\<rparr>))) ''Location''
     = Some ''https://example.com''"
proof -
  have h1: "redis (example_world example_store \<lparr>broker = Accepting, partitions = [[]]\<rparr>)
              = Redis_Up [''url:abc123'' \<mapsto> ''https://example.com'']"
    by (simp add: example_store_def)
  have h2: "[''url:abc123'' \<mapsto> ''https://example.com''] (''url:'' @ ''abc123'')
              = Some ''https://example.com''"
    by simp
  have h3: "Vars example_request ''shortCode'' = Some ''abc123''" by simp
  have h4: "status newResponseWriter = None" by (simp add: newResponseWriter_def)
  note t = redirect_known_code [OF h1 h2 h3 h4]
  from t have st: "status (fst (redirectHandler newResponseWriter example_request
       (example_world example_store \<lparr>broker = Accepting, partitions = [[]]\<rparr>))) = Some 302"
    by (rule conjunct1)
  from t have "url_scheme ''https://example.com'' \<noteq> [] \<longrightarrow>
      is_visible_ascii ''https://example.com'' \<longrightarrow>
      header (fst (redirectHandler newResponseWriter example_request
       (example_world example_store \<lparr>broker = Accepting, partitions = [[]]\<rparr>))) ''Location''
        = Some ''https://example.com''"
    by (rule conjunct2 [THEN conjunct2])
  with example_destination st show ?thesis by simp
qed

text \<open>
  C1 as first stated, that the \<^verbatim>\<open>Location\<close> header equals every stored destination,
  fails for a destination without a scheme: with \<^verbatim>\<open>example.com\<close> stored for \<^verbatim>\<open>abc123\<close>,
  the request for \<^verbatim>\<open>/abc123\<close> is redirected to \<^verbatim>\<open>/example.com\<close>.
\<close>

theorem schemeless_destination_rewritten:
  "header (fst (redirectHandler newResponseWriter example_request
       (example_world (Redis_Up [''url:abc123'' \<mapsto> ''example.com''])
          \<lparr>broker = Accepting, partitions = [[]]\<rparr>))) ''Location''
     = Some ''/example.com''"
proof -
  have "fst (redirectHandler newResponseWriter example_request
       (example_world (Redis_Up [''url:abc123'' \<mapsto> ''example.com''])
          \<lparr>broker = Accepting, partitions = [[]]\<rparr>)) =
        http_Redirect newResponseWriter example_request ''example.com'' StatusFound"
    by (rule redirectHandler_found) (simp add: redis_Get_Up map_index_def)
  then show ?thesis
    by (simp add: header_http_Redirect_Location newResponseWriter_def example_relative)
qed

subsection \<open>Unknown short codes\<close>

text \<open>
  C3. For every short code \<open>C\<close> that the mapping store does not hold, the handler of
  \<^verbatim>\<open>GET /{shortCode}\<close>, called with the route variable bound to \<open>C\<close>, answers with
  status 404 and sets no \<^verbatim>\<open>Location\<close> header; it starts no publishing goroutine, and
  after the whole request no message has been passed to the writer and the event log
  is as it was.
\<close>

theorem unknown_code_not_found:
  assumes "redis world = Redis_Up store" and "store (''url:'' @ C) = None"
    and "Vars r ''shortCode'' = Some C" and "status w = None"
  shows "status (fst (redirectHandler w r world)) = Some 404 \<and>
         header (fst (redirectHandler w r world)) ''Location'' = header w ''Location'' \<and>
         fst (snd (redirectHandler w r world)) = [] \<and>
         kafkaCalls (snd (serveRedirect M now w r world)) = kafkaCalls world \<and>
         kafka (snd (serveRedirect M now w r world)) = kafka world"
proof -
  have nf: "snd (fst (redis_Get (redis world) (''url:'' @ map_index (Vars r) ''shortCode'')))
              = Some redis_Nil"
    using assms by (simp add: map_index_def redis_Get_Up)
  note h = redirectHandler_not_found [OF nf, of w]
  show ?thesis
    using assms(4)
    by (simp add: h serveRedirect_nothing_started status_http_Error header_http_Error_Location
        StatusNotFound_def)
qed

theorem unknown_code_not_found_witness:
  "status (fst (redirectHandler newResponseWriter example_request
       (example_world (Redis_Up Map.empty) \<lparr>broker = Accepting, partitions = [[]]\<rparr>)))
     = Some 404 \<and>
   header (fst (redirectHandler newResponseWriter example_request
       (example_world (Redis_Up Map.empty) \<lparr>broker = Accepting, partitions = [[]]\<rparr>)))
       ''Location'' = None \<and>
   fst (snd (redirectHandler newResponseWriter example_request
       (example_world (Redis_Up Map.empty) \<lparr>broker = Accepting, partitions = [[]]\<rparr>))) = [] \<and>
   kafkaCalls (snd (serveRedirect example_Marshal 1 newResponseWriter example_request
       (example_world (Redis_Up Map.empty) \<lparr>broker = Accepting, partitions = [[]]\<rparr>))) = [] \<and>
   kafka (snd (serveRedirect example_Marshal 1 newResponseWriter example_request
       (example_world (Redis_Up Map.empty) \<lparr>broker = Accepting, partitions = [[]]\<rparr>)))
     = \<lparr>broker = Accepting, partitions = [[]]\<rparr>"
proof -
  have h1: "redis (example_world (Redis_Up Map.empty) \<lparr>broker = Accepting, partitions = [[]]\<rparr>)
              = Redis_Up Map.empty"
    by simp
  have h2: "(Map.empty :: string \<rightharpoonup> string) (''url:'' @ ''abc123'') = None" by simp
  have h3: "Vars example_request ''shortCode'' = Some ''abc123''" by simp
  have h4: "status newResponseWriter = None" by (simp add: newResponseWriter_def)
  have h5: "header newResponseWriter ''Location'' = None" by (simp add: newResponseWriter_def)
  show ?thesis
    using unknown_code_not_found [OF h1 h2 h3 h4, of example_Marshal 1] h5 by simp
qed

subsection \<open>Store failures\<close>

text \<open>
  C6 (as amended). Whenever the store lookup of a \<^verbatim>\<open>GET /{shortCode}\<close> request fails
  with an error other than key-not-found, the handler answers with status 500 and
  starts no publishing goroutine (no message reaches the writer, the event log is as
  it was). The handler makes the one lookup and does not repeat it: the commands of
  the request are those of that one call. Within the call the store client sends the
  \<^verbatim>\<open>GET\<close> once when the error is not one it retries, and four times, the first
  attempt and three retries, when it is.
\<close>

theorem store_error_internal:
  assumes "snd (fst (redis_Get (redis world) (''url:'' @ C))) = Some e" and "e \<noteq> redis_Nil"
    and "Vars r ''shortCode'' = Some C" and "status w = None"
  shows "status (fst (redirectHandler w r world)) = Some 500 \<and>
         fst (snd (redirectHandler w r world)) = [] \<and>
         kafkaCalls (snd (serveRedirect M now w r world)) = kafkaCalls world \<and>
         kafka (snd (serveRedirect M now w r world)) = kafka world \<and>
         redisCalls (snd (serveRedirect M now w r world)) =
           redisCalls world @ snd (redis_Get (redis world) (''url:'' @ C)) \<and>
         snd (redis_Get (redis world) (''url:'' @ C)) =
           replicate (if shouldRetry e then 4 else 1) (GET (''url:'' @ C))"
proof -
  have ix: "map_index (Vars r) ''shortCode'' = C"
    using assms(3) by (simp add: map_index_def)
  have er: "snd (fst (redis_Get (redis world) (''url:'' @ map_index (Vars r) ''shortCode'')))
              = Some e"
    using assms(1) ix by simp
  note h = redirectHandler_store_error [OF er assms(2), of w]
  show ?thesis
    using assms(4) redis_Get_error_sent [OF assms(1)]
    by (simp add: h serveRedirect_nothing_started status_http_Error redirectHandler_redisCalls ix
        StatusInternalServerError_def)
qed

theorem store_error_internal_witness:
  "status (fst (redirectHandler newResponseWriter example_request
       (example_world (Redis_Down ''dial tcp: connection refused'')
          \<lparr>broker = Accepting, partitions = [[]]\<rparr>))) = Some 500 \<and>
   fst (snd (redirectHandler newResponseWriter example_request
       (example_world (Redis_Down ''dial tcp: connection refused'')
          \<lparr>broker = Accepting, partitions = [[]]\<rparr>))) = [] \<and>
   kafkaCalls (snd (serveRedirect example_Marshal 1 newResponseWriter example_request
       (example_world (Redis_Down ''dial tcp: connection refused'')
          \<lparr>broker = Accepting, partitions = [[]]\<rparr>))) = [] \<and>
   kafka (snd (serveRedirect example_Marshal 1 newResponseWriter example_request
       (example_world (Redis_Down ''dial tcp: connection refused'')
          \<lparr>broker = Accepting, partitions = [[]]\<rparr>))) =
     \<lparr>broker = Accepting, partitions = [[]]\<rparr>"
proof -
  have h1: "snd (fst (redis_Get (redis (example_world (Redis_Down ''dial tcp: connection refused'')
                 \<lparr>broker = Accepting, partitions = [[]]\<rparr>)) (''url:'' @ ''abc123'')))
              = Some (net_Error ''dial tcp: connection refused'')"
    by (simp add: redis_Get_Down)
  have h2: "net_Error ''dial tcp: connection refused'' \<noteq> redis_Nil" by simp
  have h3: "Vars example_request ''shortCode'' = Some ''abc123''" by simp
  have h4: "status newResponseWriter = None" by (simp add: newResponseWriter_def)
  show ?thesis
    using store_error_internal [OF h1 h2 h3 h4, of example_Marshal 1] by simp
qed

text \<open>
  C6 as first stated, that no retry occurs within the request, fails when the store
  is unreachable: the one request has the \<^verbatim>\<open>GET\<close> attempted four times.
\<close>

theorem store_down_four_commands:
  "redisCalls (snd (serveRedirect example_Marshal 1 newResponseWriter example_request
       (example_world (Redis_Down ''dial tcp: connection refused'')
          \<lparr>broker = Accepting, partitions = [[]]\<rparr>))) =
     [GET ''url:abc123'', GET ''url:abc123'', GET ''url:abc123'', GET ''url:abc123'']"
  by (simp add: serveRedirect_redisCalls redis_Get_Down map_index_def numeral_eq_Suc)

subsection \<open>Resolving twice\<close>

text \<open>
  C9. A redirect request leaves the mapping store as it was, and the only command it
  sends to the store is the \<^verbatim>\<open>GET\<close> of its short code, once on a reachable store and
  four times on an unreachable one; so a second request for the same short code,
  served after the first and after its publishing goroutine, receives the same
  response (the same destination), and the store is still unchanged.
\<close>

theorem resolve_twice_same:
  "redis (snd (serveRedirect M now w r world)) = redis world \<and>
   redisCalls (snd (serveRedirect M now w r world)) =
     redisCalls world @
       replicate (if \<exists>m. redis world = Redis_Up m then 1 else 4)
         (GET (''url:'' @ map_index (Vars r) ''shortCode'')) \<and>
   fst (serveRedirect M' now' w r (snd (serveRedirect M now w r world))) =
     fst (serveRedirect M now w r world) \<and>
   redis (snd (serveRedirect M' now' w r (snd (serveRedirect M now w r world)))) = redis world"
proof -
  have same: "fst (redirectHandler w r (snd (serveRedirect M now w r world))) =
     fst (redirectHandler w r world)"
    by (rule redirectHandler_fst_cong) simp
  show ?thesis
    by (simp add: serveRedirect_redisCalls redis_Get_sent serveRedirect_fst same)
qed

subsection \<open>The client address\<close>

text \<open>
  C7. The client address that \<^verbatim>\<open>getIP\<close> computes is the one the specification words:
  the forwarded-for header if it is not empty, otherwise the real-ip header if it is
  not empty, otherwise the raw peer address. It is the address recorded in the click
  event: the message handed to the writer is the encoding of the event that carries it.
\<close>

theorem client_address_precedence:
  "getIP r = client_address_spec r \<and>
   kafkaCalls (publishClickEvent M C r now world) =
     (case M (ClickEvent_json \<lparr>ShortCode = C, Timestamp = now,
                UserAgent = Request_UserAgent r, IP = client_address_spec r\<rparr>) of
        Inl e \<Rightarrow> kafkaCalls world
      | Inr v \<Rightarrow> kafkaCalls world @ [\<lparr>Key = C, Value = v\<rparr>])"
proof -
  have "getIP r = client_address_spec r"
    by (simp add: getIP_def client_address_spec_def Let_def)
  then show ?thesis
    using publishClickEvent_kafkaCalls [of M C r now world] by simp
qed

subsection \<open>The health check\<close>

text \<open>
  C8. The health handler probes the store with \<^verbatim>\<open>PING\<close> (once when the store answers,
  four times when it does not) and answers with the JSON encoding of an object with
  the members \<open>status\<close>, \<open>service\<close> and \<open>timestamp\<close>, where \<open>status\<close> is \<open>healthy\<close> if and
  only if the store answered the probe. How long the probe may take is the store
  client's matter: an unanswered probe is one that the client reports as failed.
\<close>

theorem health_reports_store_liveness:
  "fst (healthHandler M now w r world) =
     respondJSON M w 200
       [(''status'', JString (if \<exists>m. redis world = Redis_Up m then ''healthy'' else ''unhealthy'')),
        (''service'', JString ''redirect-service''),
        (''timestamp'', JTime now)] \<and>
   redisCalls (snd (healthHandler M now w r world)) =
     redisCalls world @ replicate (if \<exists>m. redis world = Redis_Up m then 1 else 4) PING \<and>
   (\<forall>data bs. status w = None \<longrightarrow> M data = Inr bs \<longrightarrow>
      body (respondJSON M w 200 data) = body w @ bs @ newline \<and>
      header (respondJSON M w 200 data) ''Content-Type'' = Some ''application/json'')"
  by (simp add: healthHandler_fst redis_Ping_ok body_respondJSON healthHandler_redisCalls
      redis_Ping_sent)

theorem health_reports_store_liveness_witness:
  "fst (healthHandler example_Marshal 7 newResponseWriter example_request
       (example_world example_store \<lparr>broker = Accepting, partitions = [[]]\<rparr>)) =
     respondJSON example_Marshal newResponseWriter 200
       [(''status'', JString ''healthy''), (''service'', JString ''redirect-service''),
        (''timestamp'', JTime 7)] \<and>
   body (respondJSON example_Marshal newResponseWriter 200
       [(''status'', JString ''healthy''), (''service'', JString ''redirect-service''),
        (''timestamp'', JTime 7)]) = ''{}'' @ newline"
proof -
  have h1: "status newResponseWriter = None" by (simp add: newResponseWriter_def)
  have h2: "example_Marshal [(''status'', JString ''healthy''),
        (''service'', JString ''redirect-service''), (''timestamp'', JTime 7)] = Inr ''{}''"
    by (simp add: example_Marshal_def)
  have h3: "body newResponseWriter = ''''" by (simp add: newResponseWriter_def)
  show ?thesis
    using health_reports_store_liveness [of example_Marshal 7 newResponseWriter example_request
        "example_world example_store \<lparr>broker = Accepting, partitions = [[]]\<rparr>"] h1 h2 h3
    by (simp add: example_store_def)
qed

text \<open>
  C10. The health handler always answers with status 200, whatever the store's answer
  to the probe. When the store is unreachable the response is the encoding of the same
  object as when it is reachable, but for \<open>status\<close>, which is \<open>unhealthy\<close> and not
  \<open>healthy\<close>.
\<close>

theorem health_always_200:
  assumes "status w = None"
  shows "status (fst (healthHandler M now w r world)) = Some 200 \<and>
         (\<forall>msg. redis world = Redis_Down msg \<longrightarrow>
            fst (healthHandler M now w r world) =
              respondJSON M w 200
                [(''status'', JString ''unhealthy''), (''service'', JString ''redirect-service''),
                 (''timestamp'', JTime now)]) \<and>
         (\<forall>m. redis world = Redis_Up m \<longrightarrow>
            fst (healthHandler M now w r world) =
              respondJSON M w 200
                [(''status'', JString ''healthy''), (''service'', JString ''redirect-service''),
                 (''timestamp'', JTime now)])"
  using assms
  by (simp add: healthHandler_fst status_respondJSON redis_Ping_Up redis_Ping_Down)

theorem health_always_200_witness:
  "status (fst (healthHandler example_Marshal 7 newResponseWriter example_request
       (example_world (Redis_Down ''dial tcp: connection refused'')
          \<lparr>broker = Accepting, partitions = [[]]\<rparr>))) = Some 200 \<and>
   fst (healthHandler example_Marshal 7 newResponseWriter example_request
       (example_world (Redis_Down ''dial tcp: connection refused'')
          \<lparr>broker = Accepting, partitions = [[]]\<rparr>)) =
     respondJSON example_Marshal newResponseWriter 200
       [(''status'', JString ''unhealthy''), (''service'', JString ''redirect-service''),
        (''timestamp'', JTime 7)]"
proof -
  have h1: "status newResponseWriter = None" by (simp add: newResponseWriter_def)
  show ?thesis
    using health_always_200 [OF h1, of example_Marshal 7 example_request
        "example_world (Redis_Down ''dial tcp: connection refused'')
          \<lparr>broker = Accepting, partitions = [[]]\<rparr>"]
    by (simp add: status_respondJSON h1)
qed

subsection \<open>The partition key\<close>

text \<open>
  C4 (as amended). \<^verbatim>\<open>publishClickEvent\<close> hands every click event to the writer
  under a key equal to the event's short code, so two events of one short code carry
  the same key. On an accepting cluster the message is appended to the partition that
  the writer's least-bytes balancer picks, unless the message is over the writer's
  size limit and is refused. That choice is made from the balancer's byte counters and
  is the same for every key and value. On a topic of one partition it is partition 0
  for all events; on a topic of two or more partitions, two successive events of one
  short code on a writer that has not routed yet land in partitions 0 and 1.
\<close>

theorem publish_key_and_partition:
  "kafkaCalls (publishClickEvent M C r now world) =
     (case M (ClickEvent_json \<lparr>ShortCode = C, Timestamp = now,
                UserAgent = Request_UserAgent r, IP = getIP r\<rparr>) of
        Inl e \<Rightarrow> kafkaCalls world
      | Inr v \<Rightarrow> kafkaCalls world @ [\<lparr>Key = C, Value = v\<rparr>]) \<and>
   (\<forall>v. M (ClickEvent_json \<lparr>ShortCode = C, Timestamp = now,
               UserAgent = Request_UserAgent r, IP = getIP r\<rparr>) = Inr v \<longrightarrow>
      broker (kafka world) = Accepting \<longrightarrow> partitions (kafka world) \<noteq> [] \<longrightarrow>
      (let p = fst (LeastBytes_Balance (Balancer (kafkaWriter world)) \<lparr>Key = C, Value = v\<rparr>
                      (length (partitions (kafka world))))
       in partitions (kafka (publishClickEvent M C r now world)) =
            (if Writer_batchBytes < Message_totalSize \<lparr>Key = C, Value = v\<rparr>
             then partitions (kafka world)
             else (partitions (kafka world))
                    [p := partitions (kafka world) ! p @ [\<lparr>Key = C, Value = v\<rparr>]]) \<and>
          p = fst (LeastBytes_Balance (Balancer (kafkaWriter world)) \<lparr>Key = C', Value = v'\<rparr>
                      (length (partitions (kafka world)))) \<and>
          (length (partitions (kafka world)) = 1 \<longrightarrow> p = 0))) \<and>
   (\<forall>v v2. M (ClickEvent_json \<lparr>ShortCode = C, Timestamp = now,
               UserAgent = Request_UserAgent r, IP = getIP r\<rparr>) = Inr v \<longrightarrow>
      M (ClickEvent_json \<lparr>ShortCode = C, Timestamp = now2,
               UserAgent = Request_UserAgent r, IP = getIP r\<rparr>) = Inr v2 \<longrightarrow>
      C \<noteq> [] \<longrightarrow> broker (kafka world) = Accepting \<longrightarrow>
      Balancer (kafkaWriter world) = [] \<longrightarrow> 2 \<le> length (partitions (kafka world)) \<longrightarrow>
      \<not> Writer_batchBytes < Message_totalSize \<lparr>Key = C, Value = v\<rparr> \<longrightarrow>
      \<not> Writer_batchBytes < Message_totalSize \<lparr>Key = C, Value = v2\<rparr> \<longrightarrow>
      partitions (kafka (publishClickEvent M C r now2 (publishClickEvent M C r now world))) =
        (partitions (kafka world))
          [0 := partitions (kafka world) ! 0 @ [\<lparr>Key = C, Value = v\<rparr>],
           1 := partitions (kafka world) ! 1 @ [\<lparr>Key = C, Value = v2\<rparr>]])"
proof (intro conjI allI impI)
  show "kafkaCalls (publishClickEvent M C r now world) =
     (case M (ClickEvent_json \<lparr>ShortCode = C, Timestamp = now,
                UserAgent = Request_UserAgent r, IP = getIP r\<rparr>) of
        Inl e \<Rightarrow> kafkaCalls world
      | Inr v \<Rightarrow> kafkaCalls world @ [\<lparr>Key = C, Value = v\<rparr>])"
    by (rule publishClickEvent_kafkaCalls)
next
  fix v
  assume m: "M (ClickEvent_json \<lparr>ShortCode = C, Timestamp = now,
               UserAgent = Request_UserAgent r, IP = getIP r\<rparr>) = Inr v"
    and acc: "broker (kafka world) = Accepting" and ne: "partitions (kafka world) \<noteq> []"
  have key: "fst (LeastBytes_Balance (Balancer (kafkaWriter world)) \<lparr>Key = C, Value = v\<rparr>
                         (length (partitions (kafka world)))) =
      fst (LeastBytes_Balance (Balancer (kafkaWriter world)) \<lparr>Key = C', Value = v'\<rparr>
                         (length (partitions (kafka world))))"
    by (rule LeastBytes_Balance_any_key)
  have single: "length (partitions (kafka world)) = 1 \<longrightarrow>
      fst (LeastBytes_Balance (Balancer (kafkaWriter world)) \<lparr>Key = C, Value = v\<rparr>
                         (length (partitions (kafka world)))) = 0"
  proof
    assume one: "length (partitions (kafka world)) = 1"
    show "fst (LeastBytes_Balance (Balancer (kafkaWriter world)) \<lparr>Key = C, Value = v\<rparr>
                         (length (partitions (kafka world)))) = 0"
      unfolding one by (rule LeastBytes_Balance_single)
  qed
  show "let p = fst (LeastBytes_Balance (Balancer (kafkaWriter world)) \<lparr>Key = C, Value = v\<rparr>
                      (length (partitions (kafka world))))
       in partitions (kafka (publishClickEvent M C r now world)) =
            (if Writer_batchBytes < Message_totalSize \<lparr>Key = C, Value = v\<rparr>
             then partitions (kafka world)
             else (partitions (kafka world))
                    [p := partitions (kafka world) ! p @ [\<lparr>Key = C, Value = v\<rparr>]]) \<and>
          p = fst (LeastBytes_Balance (Balancer (kafkaWriter world)) \<lparr>Key = C', Value = v'\<rparr>
                      (length (partitions (kafka world)))) \<and>
          (length (partitions (kafka world)) = 1 \<longrightarrow> p = 0)"
    unfolding Let_def
    using publishClickEvent_kafka_accepting [where M = M, OF m acc ne] key single by blast
next
  fix v v2
  assume "M (ClickEvent_json \<lparr>ShortCode = C, Timestamp = now,
               UserAgent = Request_UserAgent r, IP = getIP r\<rparr>) = Inr v"
    and "M (ClickEvent_json \<lparr>ShortCode = C, Timestamp = now2,
               UserAgent = Request_UserAgent r, IP = getIP r\<rparr>) = Inr v2"
    and "C \<noteq> []" and "broker (kafka world) = Accepting"
    and "Balancer (kafkaWriter world) = []" and "2 \<le> length (partitions (kafka world))"
    and "\<not> Writer_batchBytes < Message_totalSize \<lparr>Key = C, Value = v\<rparr>"
    and "\<not> Writer_batchBytes < Message_totalSize \<lparr>Key = C, Value = v2\<rparr>"
  then show "partitions (kafka (publishClickEvent M C r now2 (publishClickEvent M C r now world))) =
        (partitions (kafka world))
          [0 := partitions (kafka world) ! 0 @ [\<lparr>Key = C, Value = v\<rparr>],
           1 := partitions (kafka world) ! 1 @ [\<lparr>Key = C, Value = v2\<rparr>]]"
    by (rule two_events_two_partitions [where M = M])
qed

theorem publish_key_and_partition_witness:
  "kafkaCalls (publishClickEvent example_Marshal ''abc123'' example_request 1
      (example_world example_store \<lparr>broker = Accepting, partitions = [[]]\<rparr>)) =
     [\<lparr>Key = ''abc123'', Value = ''{}''\<rparr>] \<and>
   partitions (kafka (publishClickEvent example_Marshal ''abc123'' example_request 1
      (example_world example_store \<lparr>broker = Accepting, partitions = [[]]\<rparr>))) =
     [[\<lparr>Key = ''abc123'', Value = ''{}''\<rparr>]] \<and>
   partitions (kafka (publishClickEvent example_Marshal ''abc123'' example_request 2
      (publishClickEvent example_Marshal ''abc123'' example_request 1
         (example_world example_store \<lparr>broker = Accepting, partitions = [[], [], []]\<rparr>)))) =
     [[\<lparr>Key = ''abc123'', Value = ''{}''\<rparr>], [\<lparr>Key = ''abc123'', Value = ''{}''\<rparr>], []]"
proof -
  note one = publish_key_and_partition
      [where M = example_Marshal and C = "''abc123''" and now = 1 and r = example_request
         and C' = "''abc123''" and v' = "''{}''" and ?now2.0 = 2
         and world = "example_world example_store \<lparr>broker = Accepting, partitions = [[]]\<rparr>"]
  note three = publish_key_and_partition
      [where M = example_Marshal and C = "''abc123''" and now = 1 and r = example_request
         and C' = "''abc123''" and v' = "''{}''" and ?now2.0 = 2
         and world = "example_world example_store
                        \<lparr>broker = Accepting, partitions = [[], [], []]\<rparr>"]
  from one have a: "kafkaCalls (publishClickEvent example_Marshal ''abc123'' example_request 1
      (example_world example_store \<lparr>broker = Accepting, partitions = [[]]\<rparr>)) =
     [\<lparr>Key = ''abc123'', Value = ''{}''\<rparr>]"
    by (simp add: example_Marshal_def)
  from one [THEN conjunct2, THEN conjunct1, THEN spec, of "''{}''"]
  have b: "partitions (kafka (publishClickEvent example_Marshal ''abc123'' example_request 1
      (example_world example_store \<lparr>broker = Accepting, partitions = [[]]\<rparr>))) =
     [[\<lparr>Key = ''abc123'', Value = ''{}''\<rparr>]]"
    by (simp add: example_Marshal_def example_message_fits Let_def LeastBytes_Balance_single)
  from three [THEN conjunct2, THEN conjunct2, THEN spec, THEN spec, of "''{}''" "''{}''"]
  have c: "partitions (kafka (publishClickEvent example_Marshal ''abc123'' example_request 2
      (publishClickEvent example_Marshal ''abc123'' example_request 1
         (example_world example_store \<lparr>broker = Accepting, partitions = [[], [], []]\<rparr>)))) =
     [[\<lparr>Key = ''abc123'', Value = ''{}''\<rparr>], [\<lparr>Key = ''abc123'', Value = ''{}''\<rparr>], []]"
    by (simp add: example_Marshal_def example_message_fits)
  from a b c show ?thesis by simp
qed

text \<open>
  C4 as first stated, that all events of one short code land in the same partition,
  fails on a topic of two partitions: two clicks on \<^verbatim>\<open>/abc123\<close>, published
  one after the other by the freshly initialised writer, land in partitions 0 and 1.
\<close>

theorem same_code_two_partitions:
  "partitions (kafka (publishClickEvent example_Marshal ''abc123'' example_request 2
      (publishClickEvent example_Marshal ''abc123'' example_request 1
         (example_world example_store \<lparr>broker = Accepting, partitions = [[], []]\<rparr>)))) =
     [[\<lparr>Key = ''abc123'', Value = ''{}''\<rparr>], [\<lparr>Key = ''abc123'', Value = ''{}''\<rparr>]]"
  by (simp add: publishClickEvent_def WriteMessages_def LeastBytes_Balance_def log_Printf_def
      example_Marshal_def example_world_def initKafka_def Let_def
      Writer_batchBytes_def Message_totalSize_def)

subsection \<open>Publish failures\<close>

text \<open>
  C5 (as amended). A publish failure stays inside the publisher. The publisher never
  ends the process, calls \<^verbatim>\<open>WriteMessages\<close> at most once (it does not retry), and the
  response of the request is the same whatever the encoder, the writer and the
  cluster do. A failure that is reported to the publisher is logged and nothing is
  written: a serialization error, or an error returned by \<^verbatim>\<open>WriteMessages\<close>, as for
  an event over the writer's size limit. A write that the cluster rejects after the
  asynchronous hand-off (\<open>Async\<close> is set) is not reported: nothing is written, and the
  publisher logs the event as published.
\<close>

theorem publish_failure_contained:
  "exited (publishClickEvent M C r now world) = exited world \<and>
   length (kafkaCalls (publishClickEvent M C r now world)) \<le> Suc (length (kafkaCalls world)) \<and>
   fst (serveRedirect M now w r world) =
     fst (serveRedirect M' now' w r (world\<lparr>kafka := k, kafkaWriter := wr\<rparr>)) \<and>
   (\<forall>e. M (ClickEvent_json \<lparr>ShortCode = C, Timestamp = now,
               UserAgent = Request_UserAgent r, IP = getIP r\<rparr>) = Inl e \<longrightarrow>
      logs (publishClickEvent M C r now world) =
        logs world @ [''[Redirect Service] Failed to marshal click event: '' @ Error_text e] \<and>
      kafkaCalls (publishClickEvent M C r now world) = kafkaCalls world \<and>
      kafka (publishClickEvent M C r now world) = kafka world) \<and>
   (\<forall>v e. M (ClickEvent_json \<lparr>ShortCode = C, Timestamp = now,
               UserAgent = Request_UserAgent r, IP = getIP r\<rparr>) = Inr v \<longrightarrow>
      fst (WriteMessages (kafkaWriter world) (kafka world) \<lparr>Key = C, Value = v\<rparr>) = Some e \<longrightarrow>
      logs (publishClickEvent M C r now world) =
        logs world @ [''[Redirect Service] Failed to publish to Kafka: '' @ Error_text e] \<and>
      kafka (publishClickEvent M C r now world) = kafka world) \<and>
   (\<forall>v e. M (ClickEvent_json \<lparr>ShortCode = C, Timestamp = now,
               UserAgent = Request_UserAgent r, IP = getIP r\<rparr>) = Inr v \<longrightarrow>
      Async (kafkaWriter world) \<longrightarrow> broker (kafka world) = Rejecting e \<longrightarrow>
      partitions (kafka world) \<noteq> [] \<longrightarrow>
      \<not> Writer_batchBytes < Message_totalSize \<lparr>Key = C, Value = v\<rparr> \<longrightarrow>
      logs (publishClickEvent M C r now world) =
        logs world @ [''[Redirect Service] Published click event for '' @ quoted C @ '' to Kafka''] \<and>
      kafka (publishClickEvent M C r now world) = kafka world) \<and>
   (\<forall>v. M (ClickEvent_json \<lparr>ShortCode = C, Timestamp = now,
               UserAgent = Request_UserAgent r, IP = getIP r\<rparr>) = Inr v \<longrightarrow>
      Writer_batchBytes < Message_totalSize \<lparr>Key = C, Value = v\<rparr> \<longrightarrow>
      logs (publishClickEvent M C r now world) =
        logs world @ [''[Redirect Service] Failed to publish to Kafka: ''
                      @ Error_text MessageSizeTooLarge] \<and>
      kafka (publishClickEvent M C r now world) = kafka world)"
proof -
  have a: "length (kafkaCalls (publishClickEvent M C r now world)) \<le> Suc (length (kafkaCalls world))"
    by (simp add: publishClickEvent_kafkaCalls split: sum.splits)
  have b: "fst (serveRedirect M now w r world) =
     fst (serveRedirect M' now' w r (world\<lparr>kafka := k, kafkaWriter := wr\<rparr>))"
    by (simp add: serveRedirect_fst redirectHandler_ignores_kafka)
  have c: "M (ClickEvent_json \<lparr>ShortCode = C, Timestamp = now,
               UserAgent = Request_UserAgent r, IP = getIP r\<rparr>) = Inl e \<Longrightarrow>
      logs (publishClickEvent M C r now world) =
        logs world @ [''[Redirect Service] Failed to marshal click event: '' @ Error_text e] \<and>
      kafkaCalls (publishClickEvent M C r now world) = kafkaCalls world \<and>
      kafka (publishClickEvent M C r now world) = kafka world" for e
    by (simp add: publishClickEvent_marshal_fails)
  have d: "M (ClickEvent_json \<lparr>ShortCode = C, Timestamp = now,
               UserAgent = Request_UserAgent r, IP = getIP r\<rparr>) = Inr v \<Longrightarrow>
      fst (WriteMessages (kafkaWriter world) (kafka world) \<lparr>Key = C, Value = v\<rparr>) = Some e \<Longrightarrow>
      logs (publishClickEvent M C r now world) =
        logs world @ [''[Redirect Service] Failed to publish to Kafka: '' @ Error_text e] \<and>
      kafka (publishClickEvent M C r now world) = kafka world" for v e
    by (simp add: publishClickEvent_logs_write_error publishClickEvent_kafka
        WriteMessages_error_keeps_log)
  have e: "M (ClickEvent_json \<lparr>ShortCode = C, Timestamp = now,
               UserAgent = Request_UserAgent r, IP = getIP r\<rparr>) = Inr v \<Longrightarrow>
      Async (kafkaWriter world) \<Longrightarrow> broker (kafka world) = Rejecting e \<Longrightarrow>
      partitions (kafka world) \<noteq> [] \<Longrightarrow>
      \<not> Writer_batchBytes < Message_totalSize \<lparr>Key = C, Value = v\<rparr> \<Longrightarrow>
      logs (publishClickEvent M C r now world) =
        logs world @ [''[Redirect Service] Published click event for '' @ quoted C @ '' to Kafka''] \<and>
      kafka (publishClickEvent M C r now world) = kafka world" for v e
    by (simp add: publishClickEvent_logs_write_ok publishClickEvent_kafka
        WriteMessages_async_rejecting)
  have f: "M (ClickEvent_json \<lparr>ShortCode = C, Timestamp = now,
               UserAgent = Request_UserAgent r, IP = getIP r\<rparr>) = Inr v \<Longrightarrow>
      Writer_batchBytes < Message_totalSize \<lparr>Key = C, Value = v\<rparr> \<Longrightarrow>
      logs (publishClickEvent M C r now world) =
        logs world @ [''[Redirect Service] Failed to publish to Kafka: ''
                      @ Error_text MessageSizeTooLarge] \<and>
      kafka (publishClickEvent M C r now world) = kafka world" for v
    by (simp add: publishClickEvent_logs_write_error publishClickEvent_kafka
        WriteMessages_too_large)
  show ?thesis
    using a b c d e f by (intro conjI allI impI) simp_all
qed

theorem publish_failure_contained_witness:
  "logs (publishClickEvent example_Marshal ''abc123'' example_request 1
      (example_world example_store
         \<lparr>broker = Unreachable ''dial tcp: connection refused'', partitions = [[]]\<rparr>)) =
     [''[Redirect Service] Kafka writer initialized'',
      ''[Redirect Service] Failed to publish to Kafka: dial tcp: connection refused''] \<and>
   kafka (publishClickEvent example_Marshal ''abc123'' example_request 1
      (example_world example_store
         \<lparr>broker = Unreachable ''dial tcp: connection refused'', partitions = [[]]\<rparr>)) =
     \<lparr>broker = Unreachable ''dial tcp: connection refused'', partitions = [[]]\<rparr> \<and>
   exited (publishClickEvent example_Marshal ''abc123'' example_request 1
      (example_world example_store
         \<lparr>broker = Unreachable ''dial tcp: connection refused'', partitions = [[]]\<rparr>)) = False"
proof -
  have h1: "example_Marshal (ClickEvent_json \<lparr>ShortCode = ''abc123'', Timestamp = 1,
                   UserAgent = Request_UserAgent example_request, IP = getIP example_request\<rparr>)
              = Inr ''{}''"
    by (simp add: example_Marshal_def)
  have h2: "fst (WriteMessages
        (kafkaWriter (example_world example_store
           \<lparr>broker = Unreachable ''dial tcp: connection refused'', partitions = [[]]\<rparr>))
        (kafka (example_world example_store
           \<lparr>broker = Unreachable ''dial tcp: connection refused'', partitions = [[]]\<rparr>))
        \<lparr>Key = ''abc123'', Value = ''{}''\<rparr>) = Some (Error ''dial tcp: connection refused'')"
    by (simp add: WriteMessages_def example_message_fits)
  note t = publish_failure_contained
      [where M = example_Marshal and C = "''abc123''" and now = 1 and r = example_request
         and world = "example_world example_store
           \<lparr>broker = Unreachable ''dial tcp: connection refused'', partitions = [[]]\<rparr>"
         and M' = example_Marshal and now' = 1 and w = newResponseWriter
         and k = "\<lparr>broker = Accepting, partitions = [[]]\<rparr>"
         and wr = "\<lparr>Addr = [], Topic = [], Balancer = [], BatchSize = 0,
                       RequiredAcks = 0, Async = False\<rparr>"]
  from t have ex: "exited (publishClickEvent example_Marshal ''abc123'' example_request 1
      (example_world example_store
         \<lparr>broker = Unreachable ''dial tcp: connection refused'', partitions = [[]]\<rparr>)) = False"
    by simp
  from t h1 h2 have lg: "logs (publishClickEvent example_Marshal ''abc123'' example_request 1
      (example_world example_store
         \<lparr>broker = Unreachable ''dial tcp: connection refused'', partitions = [[]]\<rparr>)) =
     logs (example_world example_store
         \<lparr>broker = Unreachable ''dial tcp: connection refused'', partitions = [[]]\<rparr>) @
       [''[Redirect Service] Failed to publish to Kafka: '' @ Error_text (Error ''dial tcp: connection refused'')] \<and>
     kafka (publishClickEvent example_Marshal ''abc123'' example_request 1
      (example_world example_store
         \<lparr>broker = Unreachable ''dial tcp: connection refused'', partitions = [[]]\<rparr>)) =
     kafka (example_world example_store
         \<lparr>broker = Unreachable ''dial tcp: connection refused'', partitions = [[]]\<rparr>)"
    by blast
  from ex lg show ?thesis by simp
qed

text \<open>
  C5 as first stated, that every publish failure is logged, fails for the writer
  that \<^verbatim>\<open>initKafka\<close> builds: when the cluster rejects the write, the log has no
  line about a failure, only the line that reports the event as published, and the
  event is in no partition.
\<close>

theorem rejected_write_logged_as_published:
  "logs (publishClickEvent example_Marshal ''abc123'' example_request 1
      (example_world example_store
         \<lparr>broker = Rejecting ''Request Timed Out'', partitions = [[]]\<rparr>)) =
     [''[Redirect Service] Kafka writer initialized'',
      ''[Redirect Service] Published click event for '' @ quoted ''abc123'' @ '' to Kafka''] \<and>
   partitions (kafka (publishClickEvent example_Marshal ''abc123'' example_request 1
      (example_world example_store
         \<lparr>broker = Rejecting ''Request Timed Out'', partitions = [[]]\<rparr>))) = [[]]"
  by (simp add: publishClickEvent_def WriteMessages_def LeastBytes_Balance_def log_Printf_def
      example_Marshal_def example_world_def initKafka_def Let_def
      Writer_batchBytes_def Message_totalSize_def)

end
